theory Spec2Isabelle
  imports Main "HOL-Library.Word"
begin

unbundle bit_operations_syntax

section \<open>Machine types and C strings\<close>

text \<open>
  \<open>int64_t\<close> and \<open>int32_t\<close> are words; signed readings go through \<open>sint\<close>, signed
  comparison is \<open><s\<close>. A \<open>char\<close> is an 8-bit word that is sign-extended when it is
  promoted (the signed \<open>char\<close> of the x86-64 System V ABI); \<open>long\<close> has 64 bits.
  A C string is the list of its bytes before the terminating NUL.
\<close>

type_synonym int64_t = "64 word"
type_synonym int32_t = "32 word"
type_synonym c_char = "8 word"

text \<open>\<open>s[0]\<close> of a C string: the terminating NUL when the string is empty.\<close>

definition first_char :: "string \<Rightarrow> char" where
  "first_char s = (case s of [] \<Rightarrow> CHR 0x00 | c # cs \<Rightarrow> c)"

text \<open>The \<open>ctype.h\<close> predicates in the C locale.\<close>

definition isalpha :: "char \<Rightarrow> bool" where
  "isalpha c = (let n = (of_char c :: nat) in (65 \<le> n \<and> n \<le> 90) \<or> (97 \<le> n \<and> n \<le> 122))"

definition isdigit :: "char \<Rightarrow> bool" where
  "isdigit c = (let n = (of_char c :: nat) in 48 \<le> n \<and> n \<le> 57)"

definition isspace :: "char \<Rightarrow> bool" where
  "isspace c = (let n = (of_char c :: nat) in n = 32 \<or> (9 \<le> n \<and> n \<le> 13))"

subsection \<open>The C library's \<open>strtol\<close> with base 0\<close>

text \<open>
  \<open>strtol(s, NULL, 0)\<close> as ISO C describes it: leading white space, an optional sign,
  then a prefix that selects the base (\<open>0x\<close> before a hexadecimal digit: 16, a leading
  \<open>0\<close>: 8, otherwise 10), then the longest run of digits of that base; anything after
  it is ignored, no digits at all give 0, and a value outside \<open>long\<close> is clamped to
  \<open>LONG_MAX\<close> or \<open>LONG_MIN\<close>.
\<close>

definition digit_value :: "char \<Rightarrow> int" where
  "digit_value c = (let n = (of_char c :: int) in
     if 48 \<le> n \<and> n \<le> 57 then n - 48
     else if 97 \<le> n \<and> n \<le> 122 then n - 87
     else if 65 \<le> n \<and> n \<le> 90 then n - 55
     else 36)"

fun strtol_digits :: "int \<Rightarrow> int \<Rightarrow> string \<Rightarrow> int" where
  "strtol_digits b acc [] = acc"
| "strtol_digits b acc (c # cs) =
     (if digit_value c < b then strtol_digits b (acc * b + digit_value c) cs else acc)"

definition LONG_MAX :: int where
  "LONG_MAX = 2 ^ 63 - 1"

definition LONG_MIN :: int where
  "LONG_MIN = - (2 ^ 63)"

definition strtol_magnitude :: "string \<Rightarrow> int" where
  "strtol_magnitude s =
     (case s of
        c0 # c1 # c2 # cs \<Rightarrow>
          if c0 = CHR ''0'' \<and> (c1 = CHR ''x'' \<or> c1 = CHR ''X'') \<and> digit_value c2 < 16
          then strtol_digits 16 0 (c2 # cs)
          else if c0 = CHR ''0'' then strtol_digits 8 0 s
          else strtol_digits 10 0 s
      | _ \<Rightarrow> if first_char s = CHR ''0'' then strtol_digits 8 0 s else strtol_digits 10 0 s)"

definition strtol :: "string \<Rightarrow> int" where
  "strtol s =
     (let s1 = dropWhile isspace s in
      case s1 of
        [] \<Rightarrow> 0
      | c # cs \<Rightarrow>
          if c = CHR ''-'' then max LONG_MIN (- strtol_magnitude cs)
          else if c = CHR ''+'' then min LONG_MAX (strtol_magnitude cs)
          else min LONG_MAX (strtol_magnitude s1))"

section \<open>The data model\<close>

text \<open>
  Modelled from the spec: the type declarations of \<open>lcmgen.h\<close>, with the fields that
  the code reads and writes. Fields the parser never fills (the nested
  \<open>structs\<close> and \<open>enums\<close> arrays of a struct, which stay empty, and the option table
  of \<open>lcmgen_t\<close> apart from the one flag that is read) are left out; \<open>value\<close> of an
  enum value is written \<open>evalue\<close>, \<open>values\<close> of an enum \<open>evalues\<close>, \<open>size\<close> of a
  dimension \<open>dim_size\<close>, \<open>hash\<close> of a struct \<open>struct_hash\<close>, and the two fields of
  an enum that a struct has too carry the prefix \<open>enum_\<close>.
\<close>

record lcm_typename =
  typename :: string
  package :: string
  shortname :: string

text \<open>
  Modelled from the spec: the enumeration \<open>lcm_dimension_mode_t\<close> of \<open>lcmgen.h\<close> and
  the ordinals of its two constants (Constant = 0, Variable = 1).
\<close>

datatype lcm_dimension_mode = LCM_CONST | LCM_VAR

fun mode_ordinal :: "lcm_dimension_mode \<Rightarrow> nat" where
  "mode_ordinal LCM_CONST = 0"
| "mode_ordinal LCM_VAR = 1"

record lcm_dimension =
  mode :: lcm_dimension_mode
  dim_size :: string

record lcm_member =
  type :: lcm_typename
  membername :: string
  dimensions :: "lcm_dimension list"

record lcm_enum_value =
  valuename :: string
  evalue :: int32_t

record lcm_enum =
  enum_lcmfile :: string
  enumname :: lcm_typename
  evalues :: "lcm_enum_value list"
  enum_hash :: int64_t

record lcm_struct =
  lcmfile :: string
  structname :: lcm_typename
  members :: "lcm_member list"
  struct_hash :: int64_t

record lcmgen =
  gopt_tokenize :: bool
  structs :: "lcm_struct list"
  enums :: "lcm_enum list"

section \<open>Type classification\<close>

definition primitive_types :: "string list" where
  "primitive_types = [''int8_t'', ''int16_t'', ''int32_t'', ''int64_t'', ''byte'',
     ''float'', ''double'', ''string'', ''boolean'']"

definition array_dimension_types :: "string list" where
  "array_dimension_types = [''int8_t'', ''int16_t'', ''int32_t'', ''int64_t'']"

fun string_in_array :: "string \<Rightarrow> string list \<Rightarrow> bool" where
  "string_in_array t [] = False"
| "string_in_array t (x # ts) = (if x = t then True else string_in_array t ts)"

definition lcm_is_primitive_type :: "string \<Rightarrow> bool" where
  "lcm_is_primitive_type t = string_in_array t primitive_types"

definition lcm_is_array_dimension_type :: "string \<Rightarrow> bool" where
  "lcm_is_array_dimension_type t = string_in_array t array_dimension_types"

definition lcm_is_legal_member_name :: "string \<Rightarrow> bool" where
  "lcm_is_legal_member_name t = (isalpha (first_char t) \<or> first_char t = CHR ''_'')"

section \<open>The rolling hash\<close>

text \<open>
  \<open>v << 8\<close> is \<open>push_bit 8\<close>; \<open>v >> 55\<close> on the signed \<open>int64_t\<close> is the arithmetic
  shift \<open>signed_drop_bit 55\<close>; the \<open>char\<close> argument is sign-extended by \<open>scast\<close>; the
  addition wraps.
\<close>

definition hash_update :: "int64_t \<Rightarrow> c_char \<Rightarrow> int64_t" where
  "hash_update v c = (push_bit 8 v XOR signed_drop_bit 55 v) + scast c"

fun hash_string_loop :: "int64_t \<Rightarrow> string \<Rightarrow> int64_t" where
  "hash_string_loop v [] = v"
| "hash_string_loop v (c # s) = hash_string_loop (hash_update v (of_char c)) s"

text \<open>\<open>strlen(s)\<close> is passed for a \<open>char\<close> parameter, so it is cut to 8 bits.\<close>

definition hash_string_update :: "int64_t \<Rightarrow> string \<Rightarrow> int64_t" where
  "hash_string_update v s = hash_string_loop (hash_update v (of_nat (length s))) s"

subsection \<open>Struct and enum hashes\<close>

fun hash_dimensions :: "int64_t \<Rightarrow> lcm_dimension list \<Rightarrow> int64_t" where
  "hash_dimensions v [] = v"
| "hash_dimensions v (dim # ds) =
     hash_dimensions
       (hash_string_update (hash_update v (of_nat (mode_ordinal (mode dim)))) (dim_size dim)) ds"

fun hash_members :: "int64_t \<Rightarrow> lcm_member list \<Rightarrow> int64_t" where
  "hash_members v [] = v"
| "hash_members v (lm # ms) =
     (let v1 = hash_string_update v (membername lm);
          v2 = (if lcm_is_primitive_type (typename (type lm))
                then hash_string_update v1 (typename (type lm)) else v1);
          ndim = length (dimensions lm);
          v3 = hash_update v2 (of_nat ndim)
      in hash_members (hash_dimensions v3 (dimensions lm)) ms)"

definition lcm_struct_hash :: "lcm_struct \<Rightarrow> int64_t" where
  "lcm_struct_hash lr = hash_members 0x12345678 (members lr)"

definition lcm_enum_hash :: "lcm_enum \<Rightarrow> int64_t" where
  "lcm_enum_hash le = hash_string_update 0x87654321 (typename (enumname le))"

section \<open>Constructors\<close>

text \<open>
  \<open>strrchr\<close> finds the last dot: the package is what stands before it, the short name
  what stands after it.
\<close>

definition lcm_typename_create :: "string \<Rightarrow> lcm_typename" where
  "lcm_typename_create tn =
     (if CHR ''.'' \<in> set tn
      then \<lparr>typename = tn,
            package = rev (tl (dropWhile (\<lambda>c. c \<noteq> CHR ''.'') (rev tn))),
            shortname = rev (takeWhile (\<lambda>c. c \<noteq> CHR ''.'') (rev tn))\<rparr>
      else \<lparr>typename = tn, package = [], shortname = tn\<rparr>)"

definition lcm_struct_create :: "string \<Rightarrow> string \<Rightarrow> lcm_struct" where
  "lcm_struct_create file name =
     \<lparr>lcmfile = file, structname = lcm_typename_create name, members = [], struct_hash = 0\<rparr>"

definition lcm_enum_create :: "string \<Rightarrow> string \<Rightarrow> lcm_enum" where
  "lcm_enum_create file name =
     \<lparr>enum_lcmfile = file, enumname = lcm_typename_create name, evalues = [], enum_hash = 0\<rparr>"

definition lcm_enum_value_create :: "string \<Rightarrow> lcm_enum_value" where
  "lcm_enum_value_create name = \<lparr>valuename = name, evalue = 0\<rparr>"

section \<open>Diagnostics and the token source\<close>

text \<open>
  \<open>parse_error\<close> and \<open>semantic_error\<close> print and call \<open>_exit\<close>: they never return.
  A call of either is the \<open>Inl\<close> result that every caller hands on unchanged; it
  carries the format string of the message.
\<close>

datatype error = parse_error string | semantic_error string

text \<open>
  Modelled from the spec: the tokenizer (\<open>tokenize.h\<close>, \<open>tokenize_next\<close> and
  \<open>tokenize_peek\<close>), a single-token-lookahead stream. \<open>unread\<close> holds the tokens not
  yet consumed and \<open>token\<close> the text of the token last returned; \<open>None\<close> is the \<open>EOF\<close>
  result. \<open>tokenize_peek\<close> loads the next token into \<open>token\<close> without consuming it.
\<close>

record tokenize =
  token :: string
  unread :: "string list"

definition tokenize_next :: "tokenize \<Rightarrow> tokenize option" where
  "tokenize_next t =
     (case unread t of [] \<Rightarrow> None | x # xs \<Rightarrow> Some (t\<lparr>token := x, unread := xs\<rparr>))"

definition tokenize_peek :: "tokenize \<Rightarrow> tokenize option" where
  "tokenize_peek t =
     (case unread t of [] \<Rightarrow> None | x # xs \<Rightarrow> Some (t\<lparr>token := x\<rparr>))"

definition EOF :: int where
  "EOF = - 1"

section \<open>The parser\<close>

definition parse_try_consume :: "tokenize \<Rightarrow> string \<Rightarrow> error + (bool \<times> tokenize)" where
  "parse_try_consume t tok =
     (case tokenize_peek t of
        None \<Rightarrow> Inl (parse_error ''End of file while looking for %s.'')
      | Some t1 \<Rightarrow>
          if token t1 = tok
          then Inr (True, (case tokenize_next t1 of None \<Rightarrow> t1 | Some t2 \<Rightarrow> t2))
          else Inr (False, t1))"

definition parse_require :: "tokenize \<Rightarrow> string \<Rightarrow> error + tokenize" where
  "parse_require t tok =
     (case tokenize_next t of
        None \<Rightarrow> Inl (parse_error ''expected token %s'')
      | Some t1 \<Rightarrow> if token t1 \<noteq> tok then Inl (parse_error ''expected token %s'') else Inr t1)"

definition require_next :: "tokenize \<Rightarrow> string \<Rightarrow> error + tokenize" where
  "require_next t description =
     (case tokenize_next t of
        None \<Rightarrow> Inl (parse_error ''End of file reached, expected %s.'')
      | Some t1 \<Rightarrow> Inr t1)"

fun find_member_loop :: "lcm_member list \<Rightarrow> string \<Rightarrow> lcm_member option" where
  "find_member_loop [] name = None"
| "find_member_loop (lm # ms) name =
     (if membername lm = name then Some lm else find_member_loop ms name)"

definition lcm_find_member :: "lcm_struct \<Rightarrow> string \<Rightarrow> lcm_member option" where
  "lcm_find_member lr name = find_member_loop (members lr) name"

subsection \<open>Array dimensions\<close>

text \<open>
  The search of \<open>parse_member\<close> for the member that a variable array size names: the
  result is the flag \<open>okay\<close>.
\<close>

fun find_dimension_variable :: "lcm_member list \<Rightarrow> string \<Rightarrow> error + bool" where
  "find_dimension_variable [] tok = Inr False"
| "find_dimension_variable (thislm # ms) tok =
     (if membername thislm = tok
      then (if length (dimensions thislm) \<noteq> 0
            then Inl (semantic_error ''Array dimension '%s' must be not be an array type.'')
            else if \<not> lcm_is_array_dimension_type (typename (type thislm))
            then Inl (semantic_error ''Array dimension '%s' must be an integer type.'')
            else Inr True)
      else find_dimension_variable ms tok)"

text \<open>
  The body of the dimension loop between \<open>require_next\<close> and \<open>parse_require\<close>: it reads
  \<open>t->token\<close> and the members of the struct, and fills \<open>dim\<close>. \<open>int sz\<close> receives the
  \<open>long\<close> of \<open>strtol\<close> cut to 32 bits.
\<close>

definition constant_size :: "string \<Rightarrow> int32_t" where
  "constant_size tok = word_of_int (strtol tok)"

definition parse_dimension_size :: "lcm_struct \<Rightarrow> tokenize \<Rightarrow> error + lcm_dimension" where
  "parse_dimension_size lr t =
     (if isdigit (first_char (token t))
      then (let sz = constant_size (token t) in
            if sz \<le>s 0 then Inl (semantic_error ''Constant array size must be > 0'')
            else Inr \<lparr>mode = LCM_CONST, dim_size = token t\<rparr>)
      else if first_char (token t) = CHR '']''
      then Inl (semantic_error
             ''Array sizes must be declared either as a constant or variable.'')
      else if \<not> lcm_is_legal_member_name (token t)
      then Inl (semantic_error
             ''Invalid array size variable name: must start with [a-zA-Z_].'')
      else (case find_dimension_variable (members lr) (token t) of
              Inl e \<Rightarrow> Inl e
            | Inr okay \<Rightarrow>
                if \<not> okay
                then Inl (semantic_error
                  ''Unknown variable array index '%s'. Index variables must be declared before the array.'')
                else Inr \<lparr>mode = LCM_VAR, dim_size = token t\<rparr>))"

text \<open>
  \<open>lm\<close> points into \<open>lr->members\<close> (the member was appended before its dimensions are
  read), so it is the index of the member there, and appending to \<open>lm->dimensions\<close>
  changes the struct.
\<close>

definition add_dimension :: "lcm_struct \<Rightarrow> nat \<Rightarrow> lcm_dimension \<Rightarrow> lcm_struct" where
  "add_dimension lr lm dim =
     lr\<lparr>members := (members lr)
       [lm := (members lr ! lm)\<lparr>dimensions := dimensions (members lr ! lm) @ [dim]\<rparr>]\<rparr>"

lemma parse_try_consume_unread:
  "parse_try_consume t tok = Inr (b, t1) \<Longrightarrow> length (unread t1) \<le> length (unread t)"
  by (auto simp: parse_try_consume_def tokenize_peek_def tokenize_next_def
      split: list.splits if_splits)

lemma parse_try_consume_True_unread:
  "parse_try_consume t tok = Inr (True, t1) \<Longrightarrow> length (unread t1) < length (unread t)"
  by (auto simp: parse_try_consume_def tokenize_peek_def tokenize_next_def
      split: list.splits if_splits)

lemma parse_require_unread:
  "parse_require t tok = Inr t1 \<Longrightarrow> length (unread t1) < length (unread t)"
  by (auto simp: parse_require_def tokenize_next_def split: list.splits if_splits)

lemma require_next_unread:
  "require_next t d = Inr t1 \<Longrightarrow> length (unread t1) < length (unread t)"
  by (auto simp: require_next_def tokenize_next_def split: list.splits)

function parse_dimensions :: "lcm_struct \<Rightarrow> nat \<Rightarrow> tokenize \<Rightarrow> error + (lcm_struct \<times> tokenize)"
  where
  "parse_dimensions lr lm t =
     (case parse_try_consume t ''['' of
        Inl e \<Rightarrow> Inl e
      | Inr (consumed, t1) \<Rightarrow>
          if \<not> consumed then Inr (lr, t1)
          else (case require_next t1 ''array size'' of
                  Inl e \<Rightarrow> Inl e
                | Inr t2 \<Rightarrow>
                    (case parse_dimension_size lr t2 of
                       Inl e \<Rightarrow> Inl e
                     | Inr dim \<Rightarrow>
                         (case parse_require t2 '']'' of
                            Inl e \<Rightarrow> Inl e
                          | Inr t3 \<Rightarrow> parse_dimensions (add_dimension lr lm dim) lm t3))))"
  by pat_completeness auto
termination
  by (relation "measure (\<lambda>(lr, lm, t). length (unread t))")
    (auto dest!: parse_try_consume_True_unread require_next_unread parse_require_unread)

declare parse_dimensions.simps [simp del]

lemma parse_dimensions_unread:
  "parse_dimensions lr lm t = Inr (lr', t') \<Longrightarrow> length (unread t') \<le> length (unread t)"
proof (induction lr lm t rule: parse_dimensions.induct)
  case (1 lr lm t)
  show ?case
  proof (cases "parse_try_consume t ''[''")
    case (Inl e)
    with "1.prems" show ?thesis
      by (subst (asm) parse_dimensions.simps) simp
  next
    case (Inr p)
    obtain consumed t1 where p: "p = (consumed, t1)"
      by (cases p)
    have t1: "length (unread t1) \<le> length (unread t)"
      using Inr p by (auto dest: parse_try_consume_unread)
    show ?thesis
    proof (cases consumed)
      case False
      with Inr p "1.prems" have "t' = t1"
        by (subst (asm) parse_dimensions.simps) simp
      with t1 show ?thesis by simp
    next
      case True
      with Inr p "1.prems" obtain t2 dim t3 where
        a: "require_next t1 ''array size'' = Inr t2" and
        b: "parse_dimension_size lr t2 = Inr dim" and
        c: "parse_require t2 '']'' = Inr t3" and
        d: "parse_dimensions (add_dimension lr lm dim) lm t3 = Inr (lr', t')"
        by (subst (asm) parse_dimensions.simps) (auto split: sum.splits)
      have "length (unread t') \<le> length (unread t3)"
        using "1.IH" [of p consumed t1 t2 dim t3] Inr p True a b c d by simp
      moreover have "length (unread t3) < length (unread t2)"
        using c by (rule parse_require_unread)
      moreover have "length (unread t2) < length (unread t1)"
        using a by (rule require_next_unread)
      ultimately show ?thesis using t1 by simp
    qed
  qed
qed

subsection \<open>Members\<close>

text \<open>
  The \<open>while (1)\<close> loop of \<open>parse_member\<close>: one member name with its dimensions per
  round, until no comma follows. A new member comes from \<open>lcm_member_create\<close> (no
  dimensions), receives the shared type and its name, and is appended to the struct
  before its dimensions are read.
\<close>

function parse_member_names ::
  "lcm_struct \<Rightarrow> lcm_typename \<Rightarrow> tokenize \<Rightarrow> error + (lcm_struct \<times> tokenize)" where
  "parse_member_names lr lt t =
     (case require_next t ''name identifier'' of
        Inl e \<Rightarrow> Inl e
      | Inr t1 \<Rightarrow>
          if \<not> lcm_is_legal_member_name (token t1)
          then Inl (parse_error ''Invalid member name: must start with [a-zA-Z_].'')
          else if lcm_find_member lr (token t1) \<noteq> None
          then Inl (semantic_error ''Duplicate member name '%s'.'')
          else (let lm = \<lparr>type = lt, membername = token t1, dimensions = []\<rparr>;
                    lr1 = lr\<lparr>members := members lr @ [lm]\<rparr>
                in case parse_dimensions lr1 (length (members lr)) t1 of
                     Inl e \<Rightarrow> Inl e
                   | Inr (lr2, t2) \<Rightarrow>
                       (case parse_try_consume t2 '','' of
                          Inl e \<Rightarrow> Inl e
                        | Inr (consumed, t3) \<Rightarrow>
                            if \<not> consumed then Inr (lr2, t3)
                            else parse_member_names lr2 lt t3)))"
  by pat_completeness auto
termination
  by (relation "measure (\<lambda>(lr, lt, t). length (unread t))")
    (auto dest!: parse_try_consume_True_unread require_next_unread parse_dimensions_unread)

declare parse_member_names.simps [simp del]

lemma parse_member_names_unread:
  "parse_member_names lr lt t = Inr (lr', t') \<Longrightarrow> length (unread t') < length (unread t)"
proof (induction lr lt t rule: parse_member_names.induct)
  case (1 lr lt t)
  from "1.prems" obtain t1 lr2 t2 consumed t3 where
    a: "require_next t ''name identifier'' = Inr t1" and
    l: "lcm_is_legal_member_name (token t1)" and
    f: "lcm_find_member lr (token t1) = None" and
    b: "parse_dimensions
          (lr\<lparr>members := members lr @ [\<lparr>type = lt, membername = token t1, dimensions = []\<rparr>]\<rparr>)
          (length (members lr)) t1 = Inr (lr2, t2)" and
    c: "parse_try_consume t2 '','' = Inr (consumed, t3)" and
    d: "if \<not> consumed then t' = t3 else parse_member_names lr2 lt t3 = Inr (lr', t')"
    by (subst (asm) parse_member_names.simps)
      (auto simp: Let_def split: sum.splits prod.splits if_splits)
  have t1: "length (unread t1) < length (unread t)"
    using a by (rule require_next_unread)
  have t2: "length (unread t2) \<le> length (unread t1)"
    using b by (rule parse_dimensions_unread)
  have t3: "length (unread t3) \<le> length (unread t2)"
    using c by (rule parse_try_consume_unread)
  show ?case
  proof (cases consumed)
    case False
    with d t1 t2 t3 show ?thesis by simp
  next
    case True
    with d have "parse_member_names lr2 lt t3 = Inr (lr', t')" by simp
    then have "length (unread t') < length (unread t3)"
      using "1.IH" [OF a _ _ refl refl b refl c refl] l f True by simp
    with t1 t2 t3 show ?thesis by simp
  qed
qed

definition parse_member ::
  "lcmgen \<Rightarrow> lcm_struct \<Rightarrow> tokenize \<Rightarrow> error + (lcm_struct \<times> tokenize)" where
  "parse_member lcmgen lr t =
     (case parse_try_consume t ''struct'' of
        Inl e \<Rightarrow> Inl e
      | Inr (is_struct, t1) \<Rightarrow>
          if is_struct then Inl (parse_error ''recursive structs not implemented.'')
          else (case parse_try_consume t1 ''enum'' of
            Inl e \<Rightarrow> Inl e
          | Inr (is_enum, t2) \<Rightarrow>
              if is_enum then Inl (parse_error ''recursive enums not implemented.'')
              else (case parse_try_consume t2 ''union'' of
                Inl e \<Rightarrow> Inl e
              | Inr (is_union, t3) \<Rightarrow>
                  if is_union then Inl (parse_error ''recursive unions not implemented.'')
                  else (case require_next t3 ''type identifier'' of
                    Inl e \<Rightarrow> Inl e
                  | Inr t4 \<Rightarrow>
                      if \<not> isalpha (first_char (token t4)) \<and> first_char (token t4) \<noteq> CHR ''_''
                      then Inl (parse_error ''invalid type name'')
                      else (case parse_member_names lr (lcm_typename_create (token t4)) t4 of
                        Inl e \<Rightarrow> Inl e
                      | Inr (lr1, t5) \<Rightarrow>
                          (case parse_require t5 '';'' of
                             Inl e \<Rightarrow> Inl e
                           | Inr t6 \<Rightarrow> Inr (lr1, t6)))))))"

lemma parse_member_unread:
  "parse_member lcmgen lr t = Inr (lr', t') \<Longrightarrow> length (unread t') < length (unread t)"
  unfolding parse_member_def
  by (auto split: sum.splits prod.splits if_splits
      dest!: parse_try_consume_unread require_next_unread parse_member_names_unread
        parse_require_unread)

subsection \<open>Structs\<close>

text \<open>The loop \<open>while (!parse_try_consume(t, "}")) parse_member(lcmgen, lr, t)\<close>.\<close>

function parse_struct_body ::
  "lcmgen \<Rightarrow> lcm_struct \<Rightarrow> tokenize \<Rightarrow> error + (lcm_struct \<times> tokenize)" where
  "parse_struct_body lcmgen lr t =
     (case parse_try_consume t ''}'' of
        Inl e \<Rightarrow> Inl e
      | Inr (closed, t1) \<Rightarrow>
          if closed then Inr (lr, t1)
          else (case parse_member lcmgen lr t1 of
                  Inl e \<Rightarrow> Inl e
                | Inr (lr1, t2) \<Rightarrow> parse_struct_body lcmgen lr1 t2))"
  by pat_completeness auto
termination
  by (relation "measure (\<lambda>(lcmgen, lr, t). length (unread t))")
    (auto dest!: parse_try_consume_unread parse_member_unread)

declare parse_struct_body.simps [simp del]

lemma parse_struct_body_unread:
  "parse_struct_body lcmgen lr t = Inr (lr', t') \<Longrightarrow> length (unread t') \<le> length (unread t)"
proof (induction lcmgen lr t rule: parse_struct_body.induct)
  case (1 lcmgen lr t)
  from "1.prems" obtain closed t1 where
    a: "parse_try_consume t ''}'' = Inr (closed, t1)" and
    d: "if closed then t' = t1
        else (\<exists>lr1 t2. parse_member lcmgen lr t1 = Inr (lr1, t2) \<and>
               parse_struct_body lcmgen lr1 t2 = Inr (lr', t'))"
    by (subst (asm) parse_struct_body.simps) (auto split: sum.splits prod.splits if_splits)
  have t1: "length (unread t1) \<le> length (unread t)"
    using a by (rule parse_try_consume_unread)
  show ?case
  proof (cases closed)
    case True
    with d t1 show ?thesis by simp
  next
    case False
    with d obtain lr1 t2 where
      b: "parse_member lcmgen lr t1 = Inr (lr1, t2)" and
      c: "parse_struct_body lcmgen lr1 t2 = Inr (lr', t')"
      by auto
    have "length (unread t') \<le> length (unread t2)"
      using "1.IH" [OF a refl _ b refl c] False by simp
    moreover have "length (unread t2) < length (unread t1)"
      using b by (rule parse_member_unread)
    ultimately show ?thesis using t1 by simp
  qed
qed


definition parse_struct ::
  "lcmgen \<Rightarrow> string \<Rightarrow> tokenize \<Rightarrow> error + (lcm_struct \<times> tokenize)" where
  "parse_struct lcmgen file t =
     (case require_next t ''struct name'' of
        Inl e \<Rightarrow> Inl e
      | Inr t1 \<Rightarrow>
          (let lr = lcm_struct_create file (token t1) in
           case parse_require t1 ''{'' of
             Inl e \<Rightarrow> Inl e
           | Inr t2 \<Rightarrow>
               (case parse_struct_body lcmgen lr t2 of
                  Inl e \<Rightarrow> Inl e
                | Inr (lr1, t3) \<Rightarrow> Inr (lr1\<lparr>struct_hash := lcm_struct_hash lr1\<rparr>, t3))))"

lemma parse_struct_unread:
  "parse_struct lcmgen file t = Inr (lr, t') \<Longrightarrow> length (unread t') < length (unread t)"
  unfolding parse_struct_def
  by (auto simp: Let_def split: sum.splits prod.splits
      dest!: require_next_unread parse_require_unread parse_struct_body_unread)

subsection \<open>Enums\<close>

text \<open>The running maximum of \<open>parse_enum_value\<close>, a signed comparison from \<open>max = 0\<close>.\<close>

fun enum_value_max :: "int32_t \<Rightarrow> lcm_enum_value list \<Rightarrow> int32_t" where
  "enum_value_max mx [] = mx"
| "enum_value_max mx (tmp # vs) =
     enum_value_max (if mx <s evalue tmp then evalue tmp else mx) vs"

text \<open>The loop that makes sure there are no duplicate values: the first clash exits.\<close>

fun check_enum_duplicates :: "lcm_enum_value list \<Rightarrow> lcm_enum_value \<Rightarrow> error option" where
  "check_enum_duplicates [] lev = None"
| "check_enum_duplicates (tmp # vs) lev =
     (if evalue tmp = evalue lev
      then Some (semantic_error ''Enum values %s and %s have the same value %d!'')
      else if valuename tmp = valuename lev
      then Some (semantic_error ''Enum value %s declared twice!'')
      else check_enum_duplicates vs lev)"

definition parse_enum_value :: "lcm_enum \<Rightarrow> tokenize \<Rightarrow> error + (lcm_enum \<times> tokenize)" where
  "parse_enum_value le t =
     (case require_next t ''enum name'' of
        Inl e \<Rightarrow> Inl e
      | Inr t1 \<Rightarrow>
          (let lev = lcm_enum_value_create (token t1) in
           case parse_try_consume t1 ''='' of
             Inl e \<Rightarrow> Inl e
           | Inr (explicit, t2) \<Rightarrow>
               (case (if explicit
                      then (case require_next t2 ''enum value literal'' of
                              Inl e \<Rightarrow> Inl e
                            | Inr t3 \<Rightarrow> Inr (lev\<lparr>evalue := word_of_int (strtol (token t3))\<rparr>, t3))
                      else Inr (lev\<lparr>evalue := enum_value_max 0 (evalues le) + 1\<rparr>, t2)) of
                  Inl e \<Rightarrow> Inl e
                | Inr (lev1, t4) \<Rightarrow>
                    (case check_enum_duplicates (evalues le) lev1 of
                       Some e \<Rightarrow> Inl e
                     | None \<Rightarrow> Inr (le\<lparr>evalues := evalues le @ [lev1]\<rparr>, t4)))))"

lemma parse_enum_value_unread:
  "parse_enum_value le t = Inr (le', t') \<Longrightarrow> length (unread t') < length (unread t)"
  unfolding parse_enum_value_def
  by (auto simp: Let_def split: sum.splits prod.splits if_splits option.splits
      dest!: parse_try_consume_unread require_next_unread)

text \<open>
  The loop of \<open>parse_enum\<close>: a value, then an optional comma and an optional semicolon,
  whose results are not looked at.
\<close>

function parse_enum_body :: "lcm_enum \<Rightarrow> tokenize \<Rightarrow> error + (lcm_enum \<times> tokenize)" where
  "parse_enum_body le t =
     (case parse_try_consume t ''}'' of
        Inl e \<Rightarrow> Inl e
      | Inr (closed, t1) \<Rightarrow>
          if closed then Inr (le, t1)
          else (case parse_enum_value le t1 of
                  Inl e \<Rightarrow> Inl e
                | Inr (le1, t2) \<Rightarrow>
                    (case parse_try_consume t2 '','' of
                       Inl e \<Rightarrow> Inl e
                     | Inr (comma, t3) \<Rightarrow>
                         (case parse_try_consume t3 '';'' of
                            Inl e \<Rightarrow> Inl e
                          | Inr (semicolon, t4) \<Rightarrow> parse_enum_body le1 t4))))"
  by pat_completeness auto
termination
  by (relation "measure (\<lambda>(le, t). length (unread t))")
    (auto dest!: parse_try_consume_unread parse_enum_value_unread)

declare parse_enum_body.simps [simp del]

lemma parse_enum_body_unread:
  "parse_enum_body le t = Inr (le', t') \<Longrightarrow> length (unread t') \<le> length (unread t)"
proof (induction le t rule: parse_enum_body.induct)
  case (1 le t)
  from "1.prems" obtain closed t1 where
    a: "parse_try_consume t ''}'' = Inr (closed, t1)" and
    d: "if closed then t' = t1
        else (\<exists>le1 t2 comma t3 semicolon t4.
               parse_enum_value le t1 = Inr (le1, t2) \<and>
               parse_try_consume t2 '','' = Inr (comma, t3) \<and>
               parse_try_consume t3 '';'' = Inr (semicolon, t4) \<and>
               parse_enum_body le1 t4 = Inr (le', t'))"
    by (subst (asm) parse_enum_body.simps) (auto split: sum.splits prod.splits if_splits)
  have t1: "length (unread t1) \<le> length (unread t)"
    using a by (rule parse_try_consume_unread)
  show ?case
  proof (cases closed)
    case True
    with d t1 show ?thesis by simp
  next
    case False
    with d obtain le1 t2 comma t3 semicolon t4 where
      b: "parse_enum_value le t1 = Inr (le1, t2)" and
      c: "parse_try_consume t2 '','' = Inr (comma, t3)" and
      e: "parse_try_consume t3 '';'' = Inr (semicolon, t4)" and
      f: "parse_enum_body le1 t4 = Inr (le', t')"
      by auto
    have "length (unread t') \<le> length (unread t4)"
      using "1.IH" [OF a refl _ b refl c refl e refl f] False by simp
    moreover have "length (unread t2) < length (unread t1)"
      using b by (rule parse_enum_value_unread)
    moreover have "length (unread t3) \<le> length (unread t2)"
      using c by (rule parse_try_consume_unread)
    moreover have "length (unread t4) \<le> length (unread t3)"
      using e by (rule parse_try_consume_unread)
    ultimately show ?thesis using t1 by simp
  qed
qed


definition parse_enum ::
  "lcmgen \<Rightarrow> string \<Rightarrow> tokenize \<Rightarrow> error + (lcm_enum \<times> tokenize)" where
  "parse_enum lcmgen file t =
     (case require_next t ''enum name'' of
        Inl e \<Rightarrow> Inl e
      | Inr t1 \<Rightarrow>
          (let le = lcm_enum_create file (token t1) in
           case parse_require t1 ''{'' of
             Inl e \<Rightarrow> Inl e
           | Inr t2 \<Rightarrow>
               (case parse_enum_body le t2 of
                  Inl e \<Rightarrow> Inl e
                | Inr (le1, t3) \<Rightarrow> Inr (le1\<lparr>enum_hash := lcm_enum_hash le1\<rparr>, t3))))"

lemma parse_enum_unread:
  "parse_enum lcmgen file t = Inr (le, t') \<Longrightarrow> length (unread t') < length (unread t)"
  unfolding parse_enum_def
  by (auto simp: Let_def split: sum.splits prod.splits
      dest!: require_next_unread parse_require_unread parse_enum_body_unread)

subsection \<open>Top-level entities and files\<close>

definition parse_entity ::
  "lcmgen \<Rightarrow> string \<Rightarrow> tokenize \<Rightarrow> error + (int \<times> lcmgen \<times> tokenize)" where
  "parse_entity lcmgen file t =
     (case tokenize_next t of
        None \<Rightarrow> Inr (EOF, lcmgen, t)
      | Some t1 \<Rightarrow>
          if token t1 = ''struct''
          then (case parse_struct lcmgen file t1 of
                  Inl e \<Rightarrow> Inl e
                | Inr (lr, t2) \<Rightarrow> Inr (0, lcmgen\<lparr>structs := structs lcmgen @ [lr]\<rparr>, t2))
          else if token t1 = ''enum''
          then (case parse_enum lcmgen file t1 of
                  Inl e \<Rightarrow> Inl e
                | Inr (le, t2) \<Rightarrow> Inr (0, lcmgen\<lparr>enums := enums lcmgen @ [le]\<rparr>, t2))
          else if token t1 = ''union''
          then Inl (parse_error (''unions not implemented'' @ [CHR 0x0A]))
          else Inl (parse_error ''Missing struct/enum/union token.''))"

lemma parse_entity_unread:
  "parse_entity lcmgen file t = Inr (res, lcmgen1, t1) \<Longrightarrow> res \<noteq> EOF \<Longrightarrow>
    length (unread t1) < length (unread t)"
  unfolding parse_entity_def
  by (auto simp: tokenize_next_def split: list.splits sum.splits prod.splits if_splits
      dest!: parse_struct_unread parse_enum_unread)

text \<open>
  How a run of the parser ends: by the \<open>_exit\<close> of a fatal diagnostic, or by a return
  to the caller with the given result.
\<close>

datatype outcome = Exited error | Returned int

text \<open>
  The loop \<open>do res = parse_entity(...) while (res != EOF)\<close> of \<open>lcmgen_handle_file\<close>.
  The result pairs the registry as it stands when the run ends with the way it ends.
\<close>

function parse_entities :: "lcmgen \<Rightarrow> string \<Rightarrow> tokenize \<Rightarrow> lcmgen \<times> outcome" where
  "parse_entities lcmgen path t =
     (case parse_entity lcmgen path t of
        Inl e \<Rightarrow> (lcmgen, Exited e)
      | Inr (res, lcmgen1, t1) \<Rightarrow>
          if res \<noteq> EOF then parse_entities lcmgen1 path t1 else (lcmgen1, Returned 0))"
  by pat_completeness auto
termination
  by (relation "measure (\<lambda>(lcmgen, path, t). length (unread t))")
    (auto dest!: parse_entity_unread)

declare parse_entities.simps [simp del]

text \<open>
  The loop after \<open>n\<close> rounds that each parsed an entity: the registry and the tokenizer
  with which the next call of \<open>parse_entity\<close> starts, if the loop gets that far.
\<close>

fun entities_after :: "nat \<Rightarrow> string \<Rightarrow> lcmgen \<times> tokenize \<Rightarrow> (lcmgen \<times> tokenize) option" where
  "entities_after 0 path s = Some s"
| "entities_after (Suc n) path (lcmgen, t) =
     (case parse_entity lcmgen path t of
        Inl e \<Rightarrow> None
      | Inr (res, lcmgen1, t1) \<Rightarrow>
          if res \<noteq> EOF then entities_after n path (lcmgen1, t1) else None)"

text \<open>
  \<open>tokenize_create\<close> opens the file: its result (\<open>None\<close> for \<open>NULL\<close>) is an argument.
  With the \<open>tokenize\<close> option the tokens are only printed.
\<close>

definition lcmgen_handle_file :: "lcmgen \<Rightarrow> string \<Rightarrow> tokenize option \<Rightarrow> lcmgen \<times> outcome"
  where
  "lcmgen_handle_file lcmgen path created =
     (case created of
        None \<Rightarrow> (lcmgen, Returned (- 1))
      | Some t \<Rightarrow>
          if gopt_tokenize lcmgen then (lcmgen, Returned 0)
          else parse_entities lcmgen path t)"

text \<open>\<open>lcmgen_create\<close> returns an empty registry, with no option set.\<close>

definition lcmgen_create :: lcmgen where
  "lcmgen_create = \<lparr>gopt_tokenize = False, structs = [], enums = []\<rparr>"

text \<open>
  Modelled from the spec: \<open>tokenize_create\<close> of the tokenizer, here from the token
  sequence of the file; the tokenizer starts with every token unread.
\<close>

definition tokenize_create :: "string list \<Rightarrow> tokenize" where
  "tokenize_create ts = \<lparr>token = [], unread = ts\<rparr>"

section \<open>The specification's wording\<close>

text \<open>
  The character update as the specification writes it, with a logical right shift.
\<close>

definition spec_character_update :: "int64_t \<Rightarrow> int64_t \<Rightarrow> int64_t" where
  "spec_character_update v c = (push_bit 8 v XOR drop_bit 55 v) + c"

text \<open>
  The struct hash as the specification describes it: the sequence of values fed to the
  rolling hash, member by member, folded from the seed.
\<close>

datatype feed = Feed_string string | Feed_char c_char

fun feed_update :: "int64_t \<Rightarrow> feed \<Rightarrow> int64_t" where
  "feed_update v (Feed_string s) = hash_string_update v s"
| "feed_update v (Feed_char c) = hash_update v c"

definition spec_dimension_feeds :: "lcm_dimension \<Rightarrow> feed list" where
  "spec_dimension_feeds d =
     [Feed_char (case mode d of LCM_CONST \<Rightarrow> 0 | LCM_VAR \<Rightarrow> 1), Feed_string (dim_size d)]"

definition spec_member_feeds :: "lcm_member \<Rightarrow> feed list" where
  "spec_member_feeds m =
     Feed_string (membername m)
     # (if typename (type m) \<in> set primitive_types then [Feed_string (typename (type m))] else [])
     @ Feed_char (of_nat (length (dimensions m)))
     # concat (map spec_dimension_feeds (dimensions m))"

definition spec_struct_hash :: "lcm_member list \<Rightarrow> int64_t" where
  "spec_struct_hash ms = foldl feed_update 0x12345678 (concat (map spec_member_feeds ms))"

text \<open>The result of a parse with the name of the struct replaced.\<close>

definition with_structname ::
  "lcm_typename \<Rightarrow> error + (lcm_struct \<times> tokenize) \<Rightarrow> error + (lcm_struct \<times> tokenize)" where
  "with_structname n r = (case r of Inl e \<Rightarrow> Inl e | Inr (lr, t) \<Rightarrow> Inr (lr\<lparr>structname := n\<rparr>, t))"

text \<open>
  The automatic enum value as the specification describes it: one more than the maximum
  of the values parsed so far, the maximum being 0 when there are none.
\<close>

definition spec_enum_auto_value :: "lcm_enum_value list \<Rightarrow> int" where
  "spec_enum_auto_value vs = (if vs = [] then 0 else Max (sint ` evalue ` set vs)) + 1"

section \<open>The character and string updates\<close>

lemma signed_drop_bit_55:
  "signed_drop_bit 55 (v :: int64_t) =
     (if sint v < 0 then drop_bit 55 v XOR NOT (mask 9) else drop_bit 55 v)"
  by (rule bit_word_eqI)
    (auto simp add: bit_simps bit_last_iff [symmetric] not_le dest: bit_imp_le_length)

lemma hash_update_int:
  "hash_update v c = word_of_int (((sint v * 2 ^ 8) XOR (sint v div 2 ^ 55)) + sint c)"
proof -
  have a: "word_of_int (sint v * 2 ^ 8) = (push_bit 8 v :: int64_t)"
    by (simp add: push_bit_eq_mult)
  have "sint (signed_drop_bit 55 v) = sint v div 2 ^ 55"
    by (simp add: sint_signed_drop_bit_eq drop_bit_eq_div)
  then have b: "word_of_int (sint v div 2 ^ 55) = (signed_drop_bit 55 v :: int64_t)"
    by (metis scast_eq scast_id)
  have c: "(word_of_int (sint c) :: int64_t) = scast c"
    by (rule scast_eq [symmetric])
  show ?thesis
    unfolding hash_update_def a [symmetric] b [symmetric] c [symmetric]
    by (simp only: wi_hom_add word_wi_log_defs)
qed

lemma hash_string_loop_foldl:
  "hash_string_loop v s = foldl (\<lambda>v ch. hash_update v (of_char ch)) v s"
  by (induction s arbitrary: v) simp_all

text \<open>
  C2, as the code has it. The right shift of \<open>hash_update\<close> is the arithmetic shift of
  the signed \<open>int64_t\<close>, not a logical one: on the signed values the update is
  \<open>((v * 2^8) xor (v div 2^55)) + c\<close> wrapped to 64 bits, where \<open>div\<close> rounds down.
  It agrees with the logical-shift formula of the specification when \<open>v\<close> is not
  negative; for a negative \<open>v\<close> the bits 9 to 63 of the shifted-and-xored value are
  inverted with respect to that formula. The string update feeds the length (cut to a
  \<open>char\<close>) through the character update and then every byte in order.
\<close>

theorem hash_update_arithmetic_shift:
  "hash_update v c = word_of_int (((sint v * 2 ^ 8) XOR (sint v div 2 ^ 55)) + sint c) \<and>
   hash_update v c =
     (if sint v < 0 then (push_bit 8 v XOR drop_bit 55 v XOR NOT (mask 9)) + scast c
      else spec_character_update v (scast c)) \<and>
   hash_string_update v s =
     foldl (\<lambda>v ch. hash_update v (of_char ch)) (hash_update v (of_nat (length s))) s"
proof (intro conjI)
  show "hash_update v c = word_of_int (((sint v * 2 ^ 8) XOR (sint v div 2 ^ 55)) + sint c)"
    by (rule hash_update_int)
  show "hash_update v c =
     (if sint v < 0 then (push_bit 8 v XOR drop_bit 55 v XOR NOT (mask 9)) + scast c
      else spec_character_update v (scast c))"
    by (simp add: hash_update_def spec_character_update_def signed_drop_bit_55 xor.assoc)
  show "hash_string_update v s =
     foldl (\<lambda>v ch. hash_update v (of_char ch)) (hash_update v (of_nat (length s))) s"
    by (simp add: hash_string_update_def hash_string_loop_foldl)
qed

text \<open>
  The state of an enum hash after the name \<open>abc\<close> is negative; the next character
  update differs from the logical-shift formula.
\<close>

theorem hash_update_arithmetic_shift_witness:
  "sint (hash_string_update 0x87654321 ''abc'') < 0 \<and>
   hash_update (hash_string_update 0x87654321 ''abc'') (of_char CHR ''d'') =
     (push_bit 8 (hash_string_update 0x87654321 ''abc'')
        XOR drop_bit 55 (hash_string_update 0x87654321 ''abc'') XOR NOT (mask 9))
     + scast (of_char CHR ''d'' :: c_char) \<and>
   \<not> sint (0x12345678 :: int64_t) < 0 \<and>
   hash_update 0x12345678 (of_char CHR ''d'')
     = spec_character_update 0x12345678 (scast (of_char CHR ''d'' :: c_char))"
proof -
  have neg: "sint (hash_string_update 0x87654321 ''abc'') < 0"
    by (simp add: hash_string_update_def hash_update_def)
  have pos: "\<not> sint (0x12345678 :: int64_t) < 0"
    by simp
  note negative =
    hash_update_arithmetic_shift
      [of "hash_string_update 0x87654321 ''abc''" "of_char CHR ''d''" "[]",
        THEN conjunct2, THEN conjunct1]
  note positive =
    hash_update_arithmetic_shift
      [of "0x12345678" "of_char CHR ''d''" "[]", THEN conjunct2, THEN conjunct1]
  from negative neg have e1:
    "hash_update (hash_string_update 0x87654321 ''abc'') (of_char CHR ''d'') =
     (push_bit 8 (hash_string_update 0x87654321 ''abc'')
        XOR drop_bit 55 (hash_string_update 0x87654321 ''abc'') XOR NOT (mask 9))
     + scast (of_char CHR ''d'' :: c_char)"
    by (simp only: if_True)
  from positive pos have e2:
    "hash_update 0x12345678 (of_char CHR ''d'')
     = spec_character_update 0x12345678 (scast (of_char CHR ''d'' :: c_char))"
    by (simp only: if_False)
  from neg e1 pos e2 show ?thesis
    by (intro conjI)
qed

theorem hash_update_logical_shift_counterexample:
  "hash_update (hash_string_update 0x87654321 ''abc'') (of_char CHR ''d'')
     \<noteq> spec_character_update (hash_string_update 0x87654321 ''abc'')
         (scast (of_char CHR ''d'' :: c_char))"
  by (simp add: hash_string_update_def hash_update_def spec_character_update_def)

section \<open>The struct hash\<close>

lemma string_in_array_iff: "string_in_array t ts \<longleftrightarrow> t \<in> set ts"
  by (induction ts) auto

lemma hash_dimensions_feeds:
  "hash_dimensions v ds = foldl feed_update v (concat (map spec_dimension_feeds ds))"
proof (induction ds arbitrary: v)
  case Nil
  show ?case by simp
next
  case (Cons d ds)
  have "(of_nat (mode_ordinal (mode d)) :: c_char) = (case mode d of LCM_CONST \<Rightarrow> 0 | LCM_VAR \<Rightarrow> 1)"
    by (cases "mode d") simp_all
  then show ?case
    by (simp add: Cons.IH spec_dimension_feeds_def)
qed

lemma hash_members_feeds:
  "hash_members v ms = foldl feed_update v (concat (map spec_member_feeds ms))"
proof (induction ms arbitrary: v)
  case Nil
  show ?case by simp
next
  case (Cons m ms)
  show ?case
    by (simp add: Cons.IH spec_member_feeds_def Let_def hash_dimensions_feeds
        lcm_is_primitive_type_def string_in_array_iff)
qed

lemma parse_struct_hash:
  "parse_struct lcmgen file t = Inr (lr, t') \<Longrightarrow> struct_hash lr = lcm_struct_hash lr"
  unfolding parse_struct_def
  by (auto simp: Let_def lcm_struct_hash_def split: sum.splits prod.splits)

lemma with_structname_simps [simp]:
  "with_structname n (Inl e) = Inl e"
  "with_structname n (Inr (lr, t)) = Inr (lr\<lparr>structname := n\<rparr>, t)"
  by (simp_all add: with_structname_def)

lemma parse_dimension_size_structname [simp]:
  "parse_dimension_size (lr\<lparr>structname := n\<rparr>) t = parse_dimension_size lr t"
  by (simp add: parse_dimension_size_def)

lemma add_dimension_structname [simp]:
  "add_dimension (lr\<lparr>structname := n\<rparr>) lm d = (add_dimension lr lm d)\<lparr>structname := n\<rparr>"
  by (simp add: add_dimension_def)

lemma parse_dimensions_structname:
  "parse_dimensions (lr\<lparr>structname := n\<rparr>) lm t = with_structname n (parse_dimensions lr lm t)"
proof (induction lr lm t rule: parse_dimensions.induct)
  case (1 lr lm t)
  show ?case
    apply (subst parse_dimensions.simps [of "lr\<lparr>structname := n\<rparr>" lm t])
    apply (subst parse_dimensions.simps [of lr lm t])
    apply (auto split: sum.splits prod.splits simp: "1.IH")
    done
qed

lemma lcm_find_member_structname [simp]:
  "lcm_find_member (lr\<lparr>structname := n\<rparr>) name = lcm_find_member lr name"
  by (simp add: lcm_find_member_def)

lemma parse_member_names_structname:
  "parse_member_names (lr\<lparr>structname := n\<rparr>) lt t = with_structname n (parse_member_names lr lt t)"
proof (induction lr lt t rule: parse_member_names.induct)
  case (1 lr lt t)
  have upd: "lr\<lparr>structname := n, members := ms\<rparr> = lr\<lparr>members := ms\<rparr>\<lparr>structname := n\<rparr>" for ms
    by simp
  show ?case
    apply (subst parse_member_names.simps [of "lr\<lparr>structname := n\<rparr>" lt t])
    apply (subst parse_member_names.simps [of lr lt t])
    apply (simp only: Let_def upd parse_dimensions_structname)
    apply (auto split: sum.splits prod.splits simp: "1.IH" Let_def)
    done
qed

lemma parse_member_structname:
  "parse_member g (lr\<lparr>structname := n\<rparr>) t = with_structname n (parse_member g lr t)"
  by (auto simp: parse_member_def parse_member_names_structname split: sum.splits prod.splits)

lemma parse_struct_body_structname:
  "parse_struct_body g (lr\<lparr>structname := n\<rparr>) t = with_structname n (parse_struct_body g lr t)"
proof (induction g lr t rule: parse_struct_body.induct)
  case (1 g lr t)
  show ?case
    apply (subst parse_struct_body.simps [of g "lr\<lparr>structname := n\<rparr>" t])
    apply (subst parse_struct_body.simps [of g lr t])
    apply (auto split: sum.splits prod.splits simp: "1.IH" parse_member_structname)
    done
qed

lemma parse_struct_renamed:
  assumes "parse_struct g file (t\<lparr>unread := n1 # body\<rparr>) = Inr (lr1, t1)"
  shows "parse_struct g file (t\<lparr>unread := n2 # body\<rparr>)
     = Inr (lr1\<lparr>structname := lcm_typename_create n2\<rparr>, t1)"
proof -
  have c: "lcm_struct_create file n2 = (lcm_struct_create file n1)\<lparr>structname := lcm_typename_create n2\<rparr>"
    by (simp add: lcm_struct_create_def)
  show ?thesis
    using assms
    by (auto simp: parse_struct_def require_next_def tokenize_next_def parse_require_def Let_def c
        parse_struct_body_structname lcm_struct_hash_def
        split: sum.splits prod.splits list.splits if_splits)
qed

text \<open>
  C1. The hash stored in a struct that \<open>parse_struct\<close> returns is the fold, from the
  seed \<open>0x12345678\<close>, of the feeds of its members in declaration order: the member name
  (string update), the type name (string update) exactly when it is one of the primitive
  types, the number of dimensions (character update), and per dimension its mode
  ordinal (character update) and its size token (string update). The struct's own name
  is not among the feeds: the same declaration under any other name parses to the same
  struct, stored hash included, but for the name.
\<close>

theorem struct_hash_feeds:
  "parse_struct lcmgen file t = Inr (lr, t') \<Longrightarrow>
     struct_hash lr = spec_struct_hash (members lr) \<and>
     parse_struct lcmgen file (t\<lparr>unread := name' # tl (unread t)\<rparr>)
       = Inr (lr\<lparr>structname := lcm_typename_create name'\<rparr>, t')"
proof -
  assume run: "parse_struct lcmgen file t = Inr (lr, t')"
  then obtain name body where "unread t = name # body"
    by (cases "unread t") (simp_all add: parse_struct_def require_next_def tokenize_next_def)
  then have t: "t\<lparr>unread := name # body\<rparr> = t" and body: "tl (unread t) = body"
    by simp_all
  from run t have "parse_struct lcmgen file (t\<lparr>unread := name # body\<rparr>) = Inr (lr, t')"
    by simp
  then have "parse_struct lcmgen file (t\<lparr>unread := name' # body\<rparr>)
       = Inr (lr\<lparr>structname := lcm_typename_create name'\<rparr>, t')"
    by (rule parse_struct_renamed)
  with body have "parse_struct lcmgen file (t\<lparr>unread := name' # tl (unread t)\<rparr>)
       = Inr (lr\<lparr>structname := lcm_typename_create name'\<rparr>, t')"
    by simp
  with run show ?thesis
    by (simp add: parse_struct_hash lcm_struct_hash_def spec_struct_hash_def hash_members_feeds)
qed

text \<open>
  The struct \<open>struct a { int32_t x; int32_t data[x]; }\<close>, read after its keyword, and
  the same struct under the name \<open>b\<close>.
\<close>

theorem struct_hash_feeds_witness:
  "parse_struct lcmgen_create ''a.lcm''
     (tokenize_create [''a'', ''{'', ''int32_t'', ''x'', '';'',
        ''int32_t'', ''data'', ''['', ''x'', '']'', '';'', ''}''])
   = Inr (\<lparr>lcmfile = ''a.lcm'',
            structname = \<lparr>typename = ''a'', package = [], shortname = ''a''\<rparr>,
            members =
              [\<lparr>type = \<lparr>typename = ''int32_t'', package = [], shortname = ''int32_t''\<rparr>,
                 membername = ''x'', dimensions = []\<rparr>,
               \<lparr>type = \<lparr>typename = ''int32_t'', package = [], shortname = ''int32_t''\<rparr>,
                 membername = ''data'',
                 dimensions = [\<lparr>mode = LCM_VAR, dim_size = ''x''\<rparr>]\<rparr>],
            struct_hash = 13338824623171704509\<rparr>,
          \<lparr>token = ''}'', unread = []\<rparr>) \<and>
   spec_struct_hash
     [\<lparr>type = \<lparr>typename = ''int32_t'', package = [], shortname = ''int32_t''\<rparr>,
        membername = ''x'', dimensions = []\<rparr>,
      \<lparr>type = \<lparr>typename = ''int32_t'', package = [], shortname = ''int32_t''\<rparr>,
        membername = ''data'',
        dimensions = [\<lparr>mode = LCM_VAR, dim_size = ''x''\<rparr>]\<rparr>]
   = 13338824623171704509 \<and>
   parse_struct lcmgen_create ''a.lcm''
     (tokenize_create [''b'', ''{'', ''int32_t'', ''x'', '';'',
        ''int32_t'', ''data'', ''['', ''x'', '']'', '';'', ''}''])
   = Inr (\<lparr>lcmfile = ''a.lcm'',
            structname = \<lparr>typename = ''b'', package = [], shortname = ''b''\<rparr>,
            members =
              [\<lparr>type = \<lparr>typename = ''int32_t'', package = [], shortname = ''int32_t''\<rparr>,
                 membername = ''x'', dimensions = []\<rparr>,
               \<lparr>type = \<lparr>typename = ''int32_t'', package = [], shortname = ''int32_t''\<rparr>,
                 membername = ''data'',
                 dimensions = [\<lparr>mode = LCM_VAR, dim_size = ''x''\<rparr>]\<rparr>],
            struct_hash = 13338824623171704509\<rparr>,
          \<lparr>token = ''}'', unread = []\<rparr>)"
proof -
  have run: "parse_struct lcmgen_create ''a.lcm''
     (tokenize_create [''a'', ''{'', ''int32_t'', ''x'', '';'',
        ''int32_t'', ''data'', ''['', ''x'', '']'', '';'', ''}''])
   = Inr (\<lparr>lcmfile = ''a.lcm'',
            structname = \<lparr>typename = ''a'', package = [], shortname = ''a''\<rparr>,
            members =
              [\<lparr>type = \<lparr>typename = ''int32_t'', package = [], shortname = ''int32_t''\<rparr>,
                 membername = ''x'', dimensions = []\<rparr>,
               \<lparr>type = \<lparr>typename = ''int32_t'', package = [], shortname = ''int32_t''\<rparr>,
                 membername = ''data'',
                 dimensions = [\<lparr>mode = LCM_VAR, dim_size = ''x''\<rparr>]\<rparr>],
            struct_hash = 13338824623171704509\<rparr>,
          \<lparr>token = ''}'', unread = []\<rparr>)"
    by code_simp
  from struct_hash_feeds [OF run, of "''b''"] run show ?thesis
    by (simp add: tokenize_create_def lcm_typename_create_def)
qed

section \<open>The rolling hash is injective in its state\<close>

text \<open>
  \<open>v \<mapsto> (v << 8) xor (v >> 55)\<close> loses no information: the sign bit of \<open>v\<close> is the
  xor of bits 63 and 0 of the result, and the other bits follow. So each update, for a
  fixed input, maps different states to different states.
\<close>

lemma hash_mix_inj:
  assumes h: "push_bit 8 v XOR signed_drop_bit 55 v = push_bit 8 w XOR signed_drop_bit 55 (w :: int64_t)"
  shows "v = w"
proof -
  have bits: "bit (push_bit 8 v XOR signed_drop_bit 55 v) n = bit (push_bit 8 w XOR signed_drop_bit 55 w) n" for n
    using h by simp
  have msb: "bit v 63 = bit w 63"
    using bits [of 63] bits [of 0] by (auto simp: bit_simps)
  show ?thesis
  proof (rule bit_word_eqI)
    fix n assume "n < LENGTH(64)"
    then have n: "n < 64" by simp
    consider "n = 0" | "0 < n" "n < 56" | "56 \<le> n" "n < 63" | "n = 63"
      using n by linarith
    then show "bit v n = bit w n"
    proof cases
      case 1
      then show ?thesis using bits [of 8] msb by (auto simp: bit_simps)
    next
      case 2
      then show ?thesis using bits [of "n + 8"] msb
        by (auto simp: bit_simps split: if_splits)
    next
      case 3
      then show ?thesis using bits [of "n - 55"] msb
        by (auto simp: bit_simps split: if_splits)
    next
      case 4
      then show ?thesis using msb by simp
    qed
  qed
qed

lemma hash_update_inj_state: "hash_update v c = hash_update w c \<Longrightarrow> v = w"
  by (rule hash_mix_inj) (simp add: hash_update_def)

lemma scast_char_inj: "(scast (a :: c_char) :: int64_t) = scast b \<Longrightarrow> a = b"
proof -
  assume "(scast a :: int64_t) = scast b"
  then have "sint (scast a :: int64_t) = sint (scast b :: int64_t)" by simp
  then have "sint a = sint b" by (simp add: sint_up_scast is_up)
  then show "a = b" by (rule signed_word_eqI)
qed

lemma of_char_word_inj: "(of_char a :: c_char) = of_char b \<Longrightarrow> a = b"
proof -
  assume h: "(of_char a :: c_char) = of_char b"
  have u: "unat (of_char c :: c_char) = of_char c" for c
  proof -
    have "(of_char c :: c_char) = of_nat (of_char c)" by (simp only: of_nat_of_char)
    then have "unat (of_char c :: c_char) = (of_char c :: nat) mod 256"
      by (simp only: unat_of_nat) simp
    moreover have "(of_char c :: nat) < 256" by simp
    ultimately show ?thesis by simp
  qed
  from h have "unat (of_char a :: c_char) = unat (of_char b :: c_char)" by simp
  then have "(of_char a :: nat) = of_char b" by (simp only: u)
  then show "a = b" by simp
qed

lemma hash_update_inj_char: "hash_update v a = hash_update v b \<Longrightarrow> a = b"
  by (rule scast_char_inj) (simp add: hash_update_def)

lemma hash_string_loop_inj: "hash_string_loop v s = hash_string_loop w s \<Longrightarrow> v = w"
  by (induction s arbitrary: v w) (auto dest: hash_update_inj_state)

lemma hash_string_update_inj: "hash_string_update v s = hash_string_update w s \<Longrightarrow> v = w"
  by (auto simp: hash_string_update_def dest: hash_string_loop_inj hash_update_inj_state)

lemma hash_string_loop_append:
  "hash_string_loop v (p @ s) = hash_string_loop (hash_string_loop v p) s"
  by (induction p arbitrary: v) simp_all

lemma hash_string_update_one_char:
  assumes "a \<noteq> b"
  shows "hash_string_update v (p @ a # s) \<noteq> hash_string_update v (p @ b # s)"
proof
  assume "hash_string_update v (p @ a # s) = hash_string_update v (p @ b # s)"
  then have "hash_update (hash_string_loop (hash_update v (of_nat (length (p @ a # s)))) p) (of_char a)
    = hash_update (hash_string_loop (hash_update v (of_nat (length (p @ a # s)))) p) (of_char b)"
    by (auto simp: hash_string_update_def hash_string_loop_append dest: hash_string_loop_inj)
  then have "(of_char a :: c_char) = of_char b"
    by (rule hash_update_inj_char)
  with assms show False by (auto dest: of_char_word_inj)
qed

lemma hash_dimensions_inj: "hash_dimensions v ds = hash_dimensions w ds \<Longrightarrow> v = w"
  by (induction ds arbitrary: v w) (auto dest!: hash_string_update_inj hash_update_inj_state)

lemma hash_members_inj: "hash_members v ms = hash_members w ms \<Longrightarrow> v = w"
proof (induction ms arbitrary: v w)
  case Nil
  then show ?case by simp
next
  case (Cons m ms)
  from Cons.prems have "hash_dimensions (hash_update (if lcm_is_primitive_type (typename (type m))
      then hash_string_update (hash_string_update v (membername m)) (typename (type m)) else hash_string_update v (membername m)) (of_nat (length (dimensions m)))) (dimensions m)
     = hash_dimensions (hash_update (if lcm_is_primitive_type (typename (type m))
      then hash_string_update (hash_string_update w (membername m)) (typename (type m)) else hash_string_update w (membername m)) (of_nat (length (dimensions m)))) (dimensions m)"
    by (auto simp: Let_def dest: Cons.IH)
  then show ?case
    by (auto split: if_splits dest!: hash_dimensions_inj hash_update_inj_state hash_string_update_inj)
qed

lemma hash_members_append:
  "hash_members v (xs @ ys) = hash_members (hash_members v xs) ys"
  by (induction xs arbitrary: v) (simp_all add: Let_def)



section \<open>The enum hash\<close>

lemma typename_create [simp]: "typename (lcm_typename_create n) = n"
  by (simp add: lcm_typename_create_def)

lemma parse_enum_value_enumname:
  "parse_enum_value le t = Inr (le', t') \<Longrightarrow> enumname le' = enumname le"
  unfolding parse_enum_value_def
  by (auto simp: Let_def split: sum.splits prod.splits if_splits option.splits)

lemma parse_enum_body_enumname:
  "parse_enum_body le t = Inr (le', t') \<Longrightarrow> enumname le' = enumname le"
proof (induction le t rule: parse_enum_body.induct)
  case (1 le t)
  from "1.prems" obtain closed t1 where
    a: "parse_try_consume t ''}'' = Inr (closed, t1)" and
    d: "if closed then le' = le
        else (\<exists>le1 t2 comma t3 semicolon t4.
               parse_enum_value le t1 = Inr (le1, t2) \<and>
               parse_try_consume t2 '','' = Inr (comma, t3) \<and>
               parse_try_consume t3 '';'' = Inr (semicolon, t4) \<and>
               parse_enum_body le1 t4 = Inr (le', t'))"
    by (subst (asm) parse_enum_body.simps) (auto split: sum.splits prod.splits if_splits)
  show ?case
  proof (cases closed)
    case True
    with d show ?thesis by simp
  next
    case False
    with d obtain le1 t2 comma t3 semicolon t4 where
      b: "parse_enum_value le t1 = Inr (le1, t2)" and
      c: "parse_try_consume t2 '','' = Inr (comma, t3)" and
      e: "parse_try_consume t3 '';'' = Inr (semicolon, t4)" and
      f: "parse_enum_body le1 t4 = Inr (le', t')"
      by auto
    have "enumname le' = enumname le1"
      using "1.IH" [OF a refl _ b refl c refl e refl f] False by simp
    with b show ?thesis by (simp add: parse_enum_value_enumname)
  qed
qed

lemma parse_enum_name:
  "parse_enum lcmgen file t = Inr (le, t') \<Longrightarrow>
     typename (enumname le) = hd (unread t) \<and> enum_hash le = lcm_enum_hash le"
  unfolding parse_enum_def
  by (auto simp: Let_def lcm_enum_hash_def lcm_enum_create_def require_next_def
      tokenize_next_def parse_require_def
      split: sum.splits prod.splits list.splits if_splits option.splits
      dest!: parse_enum_body_enumname)

text \<open>
  C3, as the code has it. The hash stored in an enum that \<open>parse_enum\<close> returns is the
  string update of the seed \<open>0x87654321\<close> with the enum's qualified name, the token
  after the keyword, and with nothing else: two enums of the same name have the same
  hash whatever their values are. A changed name changes the hash whenever the two
  names differ in exactly one character; for other pairs of names the hashes can
  coincide.
\<close>

theorem enum_hash_name_only:
  "parse_enum g1 f1 t1 = Inr (le1, t1') \<Longrightarrow> parse_enum g2 f2 t2 = Inr (le2, t2') \<Longrightarrow>
     typename (enumname le1) = hd (unread t1) \<and>
     enum_hash le1 = hash_string_update 0x87654321 (typename (enumname le1)) \<and>
     (typename (enumname le1) = typename (enumname le2) \<longrightarrow> enum_hash le1 = enum_hash le2) \<and>
     (\<forall>p a b s. a \<noteq> b \<and> typename (enumname le1) = p @ a # s \<and>
        typename (enumname le2) = p @ b # s \<longrightarrow> enum_hash le1 \<noteq> enum_hash le2)"
proof -
  assume "parse_enum g1 f1 t1 = Inr (le1, t1')" and "parse_enum g2 f2 t2 = Inr (le2, t2')"
  then have n1: "typename (enumname le1) = hd (unread t1)"
    and h1: "enum_hash le1 = hash_string_update 0x87654321 (typename (enumname le1))"
    and h2: "enum_hash le2 = hash_string_update 0x87654321 (typename (enumname le2))"
    by (auto simp: lcm_enum_hash_def dest!: parse_enum_name)
  have "enum_hash le1 \<noteq> enum_hash le2"
    if "a \<noteq> b" and "typename (enumname le1) = p @ a # s"
      and "typename (enumname le2) = p @ b # s" for p a b s
    using that h1 h2 hash_string_update_one_char [of a b "0x87654321" p s] by simp
  with n1 h1 h2 show ?thesis
    by auto
qed


text \<open>
  \<open>enum Color { RED, GREEN=5, BLUE }\<close> and \<open>enum Color { BLUE=7 }\<close> have one hash;
  \<open>enum Colon { }\<close> has another.
\<close>

theorem enum_hash_name_only_witness:
  "parse_enum lcmgen_create ''a.lcm''
     (tokenize_create
       [''Color'', ''{'', ''RED'', '','', ''GREEN'', ''='', ''5'', '','', ''BLUE'', ''}''])
   = Inr (\<lparr>enum_lcmfile = ''a.lcm'',
            enumname = \<lparr>typename = ''Color'', package = [], shortname = ''Color''\<rparr>,
            evalues = [\<lparr>valuename = ''RED'', evalue = 1\<rparr>,
              \<lparr>valuename = ''GREEN'', evalue = 5\<rparr>, \<lparr>valuename = ''BLUE'', evalue = 6\<rparr>],
            enum_hash = 4837153261963018919\<rparr>,
          \<lparr>token = ''}'', unread = []\<rparr>) \<and>
   parse_enum lcmgen_create ''a.lcm''
     (tokenize_create [''Color'', ''{'', ''BLUE'', ''='', ''7'', ''}''])
   = Inr (\<lparr>enum_lcmfile = ''a.lcm'',
            enumname = \<lparr>typename = ''Color'', package = [], shortname = ''Color''\<rparr>,
            evalues = [\<lparr>valuename = ''BLUE'', evalue = 7\<rparr>],
            enum_hash = 4837153261963018919\<rparr>,
          \<lparr>token = ''}'', unread = []\<rparr>) \<and>
   parse_enum lcmgen_create ''a.lcm'' (tokenize_create [''Colon'', ''{'', ''}''])
   = Inr (\<lparr>enum_lcmfile = ''a.lcm'',
            enumname = \<lparr>typename = ''Colon'', package = [], shortname = ''Colon''\<rparr>,
            evalues = [], enum_hash = 4837153261963018915\<rparr>,
          \<lparr>token = ''}'', unread = []\<rparr>) \<and>
   hash_string_update 0x87654321 ''Color'' = 4837153261963018919 \<and>
   (4837153261963018919 :: int64_t) \<noteq> 4837153261963018915"
proof -
  have run1: "parse_enum lcmgen_create ''a.lcm''
     (tokenize_create
       [''Color'', ''{'', ''RED'', '','', ''GREEN'', ''='', ''5'', '','', ''BLUE'', ''}''])
   = Inr (\<lparr>enum_lcmfile = ''a.lcm'',
            enumname = \<lparr>typename = ''Color'', package = [], shortname = ''Color''\<rparr>,
            evalues = [\<lparr>valuename = ''RED'', evalue = 1\<rparr>,
              \<lparr>valuename = ''GREEN'', evalue = 5\<rparr>, \<lparr>valuename = ''BLUE'', evalue = 6\<rparr>],
            enum_hash = 4837153261963018919\<rparr>,
          \<lparr>token = ''}'', unread = []\<rparr>)"
    by code_simp
  have run2: "parse_enum lcmgen_create ''a.lcm''
     (tokenize_create [''Color'', ''{'', ''BLUE'', ''='', ''7'', ''}''])
   = Inr (\<lparr>enum_lcmfile = ''a.lcm'',
            enumname = \<lparr>typename = ''Color'', package = [], shortname = ''Color''\<rparr>,
            evalues = [\<lparr>valuename = ''BLUE'', evalue = 7\<rparr>],
            enum_hash = 4837153261963018919\<rparr>,
          \<lparr>token = ''}'', unread = []\<rparr>)"
    by code_simp
  have run3: "parse_enum lcmgen_create ''a.lcm'' (tokenize_create [''Colon'', ''{'', ''}''])
   = Inr (\<lparr>enum_lcmfile = ''a.lcm'',
            enumname = \<lparr>typename = ''Colon'', package = [], shortname = ''Colon''\<rparr>,
            evalues = [], enum_hash = 4837153261963018915\<rparr>,
          \<lparr>token = ''}'', unread = []\<rparr>)"
    by code_simp
  from enum_hash_name_only [OF run1 run2] have
    "hash_string_update 0x87654321 ''Color'' = 4837153261963018919"
    by simp
  moreover from enum_hash_name_only [OF run1 run3] have
    "(4837153261963018919 :: int64_t) \<noteq> 4837153261963018915"
    by simp
  ultimately show ?thesis
    using run1 run2 run3 by (intro conjI)
qed

text \<open>The enums \<open>a_statusc\<close> and \<open>b_statusa\<close> have different names and one hash.\<close>

theorem enum_hash_collision_counterexample:
  "parse_enum lcmgen_create ''a.lcm'' (tokenize_create [''a_statusc'', ''{'', ''}''])
   = Inr (\<lparr>enum_lcmfile = ''a.lcm'',
            enumname = \<lparr>typename = ''a_statusc'', package = [], shortname = ''a_statusc''\<rparr>,
            evalues = [], enum_hash = 6878260618306487845\<rparr>,
          \<lparr>token = ''}'', unread = []\<rparr>) \<and>
   parse_enum lcmgen_create ''a.lcm'' (tokenize_create [''b_statusa'', ''{'', ''}''])
   = Inr (\<lparr>enum_lcmfile = ''a.lcm'',
            enumname = \<lparr>typename = ''b_statusa'', package = [], shortname = ''b_statusa''\<rparr>,
            evalues = [], enum_hash = 6878260618306487845\<rparr>,
          \<lparr>token = ''}'', unread = []\<rparr>)"
  by code_simp

section \<open>Changes to a member\<close>

lemma hash_members_single_name:
  "hash_members v [m\<lparr>membername := n\<rparr>] = hash_members v [m] \<longleftrightarrow>
     hash_string_update v n = hash_string_update v (membername m)"
  by (auto simp: Let_def split: if_splits
      dest!: hash_dimensions_inj hash_update_inj_state hash_string_update_inj)

lemma struct_hash_update_iff:
  assumes "i < length (members lr)"
  shows "lcm_struct_hash (lr\<lparr>members := (members lr)[i := m']\<rparr>) = lcm_struct_hash lr \<longleftrightarrow>
     hash_members (hash_members 0x12345678 (take i (members lr))) [m']
       = hash_members (hash_members 0x12345678 (take i (members lr))) [members lr ! i]"
proof -
  have a: "(members lr)[i := m'] = take i (members lr) @ [m'] @ drop (Suc i) (members lr)"
    using assms by (simp add: upd_conv_take_nth_drop)
  have b: "members lr = take i (members lr) @ [members lr ! i] @ drop (Suc i) (members lr)"
    using assms by (simp add: id_take_nth_drop [symmetric])
  have "lcm_struct_hash (lr\<lparr>members := (members lr)[i := m']\<rparr>) =
      hash_members (hash_members (hash_members 0x12345678 (take i (members lr))) [m'])
        (drop (Suc i) (members lr))"
  proof -
    have "members (lr\<lparr>members := (members lr)[i := m']\<rparr>) = (members lr)[i := m']"
      by simp
    then show ?thesis
      unfolding lcm_struct_hash_def by (simp only: a hash_members_append)
  qed
  moreover have "lcm_struct_hash lr =
      hash_members (hash_members (hash_members 0x12345678 (take i (members lr))) [members lr ! i])
        (drop (Suc i) (members lr))"
    unfolding lcm_struct_hash_def by (subst b) (simp only: hash_members_append)
  ultimately show ?thesis
    by (auto dest: hash_members_inj)
qed

lemma hash_members_single_type:
  assumes "lcm_is_primitive_type (typename (type m))"
  shows "hash_members v [m\<lparr>type := lcm_typename_create tn\<rparr>] = hash_members v [m] \<longleftrightarrow>
     (if lcm_is_primitive_type tn
      then hash_string_update (hash_string_update v (membername m)) tn
      else hash_string_update v (membername m))
     = hash_string_update (hash_string_update v (membername m)) (typename (type m))"
  using assms
  by (auto simp: Let_def dest!: hash_dimensions_inj hash_update_inj_state)

text \<open>
  C4, as the code has it. The name of a member is always fed into the struct hash; the
  name of its type is fed exactly when the type is primitive. So replacing the type
  name of a compound-typed member by another compound type name leaves the hash as it
  is. For a primitive-typed member, a new spelling of the type leaves the hash as it is
  exactly when the string update with the new spelling (or no update, when the new
  spelling is not a primitive type) gives the state that the string update with the old
  spelling gives. A new name of a member, whatever its type, leaves the hash as it is
  exactly when the string updates with the two names give the same state; a change of
  one character of the name always changes the hash. So these changes alter the hash
  but for collisions of the rolling hash.
\<close>

theorem struct_hash_member_changes:
  "i < length (members lr) \<Longrightarrow>
     (\<not> lcm_is_primitive_type (typename (type (members lr ! i))) \<and> \<not> lcm_is_primitive_type tn \<longrightarrow>
        lcm_struct_hash
          (lr\<lparr>members := (members lr)[i := (members lr ! i)\<lparr>type := lcm_typename_create tn\<rparr>]\<rparr>)
        = lcm_struct_hash lr) \<and>
     (lcm_is_primitive_type (typename (type (members lr ! i))) \<longrightarrow>
        (lcm_struct_hash
           (lr\<lparr>members := (members lr)[i := (members lr ! i)\<lparr>type := lcm_typename_create tn\<rparr>]\<rparr>)
         = lcm_struct_hash lr \<longleftrightarrow>
         (if lcm_is_primitive_type tn
          then hash_string_update
            (hash_string_update (hash_members 0x12345678 (take i (members lr)))
               (membername (members lr ! i))) tn
          else hash_string_update (hash_members 0x12345678 (take i (members lr)))
               (membername (members lr ! i)))
         = hash_string_update
            (hash_string_update (hash_members 0x12345678 (take i (members lr)))
               (membername (members lr ! i))) (typename (type (members lr ! i))))) \<and>
     (lcm_struct_hash
        (lr\<lparr>members := (members lr)[i := (members lr ! i)\<lparr>membername := n'\<rparr>]\<rparr>)
      = lcm_struct_hash lr \<longleftrightarrow>
      hash_string_update (hash_members 0x12345678 (take i (members lr))) n'
      = hash_string_update (hash_members 0x12345678 (take i (members lr)))
          (membername (members lr ! i))) \<and>
     (a \<noteq> b \<and> membername (members lr ! i) = p @ a # s \<longrightarrow>
        lcm_struct_hash
          (lr\<lparr>members := (members lr)[i := (members lr ! i)\<lparr>membername := p @ b # s\<rparr>]\<rparr>)
        \<noteq> lcm_struct_hash lr)"
proof (intro conjI impI)
  assume i: "i < length (members lr)"
  show "lcm_struct_hash
        (lr\<lparr>members := (members lr)[i := (members lr ! i)\<lparr>membername := n'\<rparr>]\<rparr>)
      = lcm_struct_hash lr \<longleftrightarrow>
      hash_string_update (hash_members 0x12345678 (take i (members lr))) n'
      = hash_string_update (hash_members 0x12345678 (take i (members lr)))
          (membername (members lr ! i))"
    by (simp only: struct_hash_update_iff [OF i] hash_members_single_name)
  {
    assume "\<not> lcm_is_primitive_type (typename (type (members lr ! i))) \<and> \<not> lcm_is_primitive_type tn"
    then show "lcm_struct_hash
          (lr\<lparr>members := (members lr)[i := (members lr ! i)\<lparr>type := lcm_typename_create tn\<rparr>]\<rparr>)
        = lcm_struct_hash lr"
      by (simp add: struct_hash_update_iff [OF i] Let_def)
  }
  {
    assume "lcm_is_primitive_type (typename (type (members lr ! i)))"
    then show "lcm_struct_hash
           (lr\<lparr>members := (members lr)[i := (members lr ! i)\<lparr>type := lcm_typename_create tn\<rparr>]\<rparr>)
         = lcm_struct_hash lr \<longleftrightarrow>
         (if lcm_is_primitive_type tn
          then hash_string_update
            (hash_string_update (hash_members 0x12345678 (take i (members lr)))
               (membername (members lr ! i))) tn
          else hash_string_update (hash_members 0x12345678 (take i (members lr)))
               (membername (members lr ! i)))
         = hash_string_update
            (hash_string_update (hash_members 0x12345678 (take i (members lr)))
               (membername (members lr ! i))) (typename (type (members lr ! i)))"
      by (simp only: struct_hash_update_iff [OF i] hash_members_single_type)
  }
  {
    assume "a \<noteq> b \<and> membername (members lr ! i) = p @ a # s"
    then have ab: "b \<noteq> a" and name: "membername (members lr ! i) = p @ a # s"
      by auto
    have "hash_string_update (hash_members 0x12345678 (take i (members lr))) (p @ b # s)
        \<noteq> hash_string_update (hash_members 0x12345678 (take i (members lr))) (p @ a # s)"
      using ab by (rule hash_string_update_one_char)
    then show "lcm_struct_hash
          (lr\<lparr>members := (members lr)[i := (members lr ! i)\<lparr>membername := p @ b # s\<rparr>]\<rparr>)
        \<noteq> lcm_struct_hash lr"
      by (simp add: struct_hash_update_iff [OF i] hash_members_single_name name
          del: hash_members.simps)
  }
qed


text \<open>
  In \<open>struct a { int32_t x; pose_t origin; }\<close> the type \<open>int64_t\<close> for \<open>x\<close> changes
  the hash, and so does the name \<open>y\<close> for \<open>x\<close>; the type \<open>point_t\<close> for \<open>origin\<close> does
  not.
\<close>

theorem struct_hash_member_changes_witness:
  "lcm_struct_hash
     \<lparr>lcmfile = ''a.lcm'', structname = lcm_typename_create ''a'',
        members = [\<lparr>type = lcm_typename_create ''int64_t'', membername = ''x'', dimensions = []\<rparr>,
          \<lparr>type = lcm_typename_create ''pose_t'', membername = ''origin'', dimensions = []\<rparr>],
        struct_hash = 0\<rparr>
   \<noteq> lcm_struct_hash
     \<lparr>lcmfile = ''a.lcm'', structname = lcm_typename_create ''a'',
        members = [\<lparr>type = lcm_typename_create ''int32_t'', membername = ''x'', dimensions = []\<rparr>,
          \<lparr>type = lcm_typename_create ''pose_t'', membername = ''origin'', dimensions = []\<rparr>],
        struct_hash = 0\<rparr> \<and>
   lcm_struct_hash
     \<lparr>lcmfile = ''a.lcm'', structname = lcm_typename_create ''a'',
        members = [\<lparr>type = lcm_typename_create ''int32_t'', membername = ''y'', dimensions = []\<rparr>,
          \<lparr>type = lcm_typename_create ''pose_t'', membername = ''origin'', dimensions = []\<rparr>],
        struct_hash = 0\<rparr>
   \<noteq> lcm_struct_hash
     \<lparr>lcmfile = ''a.lcm'', structname = lcm_typename_create ''a'',
        members = [\<lparr>type = lcm_typename_create ''int32_t'', membername = ''x'', dimensions = []\<rparr>,
          \<lparr>type = lcm_typename_create ''pose_t'', membername = ''origin'', dimensions = []\<rparr>],
        struct_hash = 0\<rparr> \<and>
   lcm_struct_hash
     \<lparr>lcmfile = ''a.lcm'', structname = lcm_typename_create ''a'',
        members = [\<lparr>type = lcm_typename_create ''int32_t'', membername = ''x'', dimensions = []\<rparr>,
          \<lparr>type = lcm_typename_create ''point_t'', membername = ''origin'', dimensions = []\<rparr>],
        struct_hash = 0\<rparr>
   = lcm_struct_hash
     \<lparr>lcmfile = ''a.lcm'', structname = lcm_typename_create ''a'',
        members = [\<lparr>type = lcm_typename_create ''int32_t'', membername = ''x'', dimensions = []\<rparr>,
          \<lparr>type = lcm_typename_create ''pose_t'', membername = ''origin'', dimensions = []\<rparr>],
        struct_hash = 0\<rparr>"
proof -
  let ?lr = "\<lparr>lcmfile = ''a.lcm'', structname = lcm_typename_create ''a'',
        members = [\<lparr>type = lcm_typename_create ''int32_t'', membername = ''x'', dimensions = []\<rparr>,
          \<lparr>type = lcm_typename_create ''pose_t'', membername = ''origin'', dimensions = []\<rparr>],
        struct_hash = 0\<rparr>"
  have i0: "0 < length (members ?lr)" and i1: "1 < length (members ?lr)"
    by simp_all
  have prim: "lcm_is_primitive_type (typename (type (members ?lr ! 0)))"
    "lcm_is_primitive_type ''int64_t''"
    and compound: "\<not> lcm_is_primitive_type (typename (type (members ?lr ! 1))) \<and>
      \<not> lcm_is_primitive_type ''point_t''"
    by (simp_all add: lcm_is_primitive_type_def primitive_types_def lcm_typename_create_def)
  have states: "hash_string_update
      (hash_string_update (hash_members 0x12345678 (take 0 (members ?lr)))
         (membername (members ?lr ! 0))) ''int64_t''
    \<noteq> hash_string_update
      (hash_string_update (hash_members 0x12345678 (take 0 (members ?lr)))
         (membername (members ?lr ! 0))) (typename (type (members ?lr ! 0)))"
    by (simp add: hash_string_update_def hash_update_def lcm_typename_create_def)
  have name: "CHR ''x'' \<noteq> CHR ''y'' \<and> membername (members ?lr ! 0) = [] @ CHR ''x'' # []"
    by simp
  note first = struct_hash_member_changes [OF i0, of "''int64_t''" _ "CHR ''x''" "CHR ''y''" "[]" "[]"]
  note second = struct_hash_member_changes [OF i1, of "''point_t''"]
  from first prim states have a:
    "lcm_struct_hash (?lr\<lparr>members := (members ?lr)
        [0 := (members ?lr ! 0)\<lparr>type := lcm_typename_create ''int64_t''\<rparr>]\<rparr>)
     \<noteq> lcm_struct_hash ?lr"
    by (simp only: if_True simp_thms)
  from first name have b:
    "lcm_struct_hash (?lr\<lparr>members := (members ?lr)
        [0 := (members ?lr ! 0)\<lparr>membername := [] @ CHR ''y'' # []\<rparr>]\<rparr>)
     \<noteq> lcm_struct_hash ?lr"
    by blast
  from second compound have c:
    "lcm_struct_hash (?lr\<lparr>members := (members ?lr)
        [1 := (members ?lr ! 1)\<lparr>type := lcm_typename_create ''point_t''\<rparr>]\<rparr>)
     = lcm_struct_hash ?lr"
    by blast
  from a b c show ?thesis
    by simp
qed

text \<open>
  \<open>struct a { pose_t origin; }\<close> and \<open>struct a { pose_t start; }\<close> differ only in the
  name of a member of compound type, and their hashes differ.
  \<open>struct a { int32_t a_statusc; }\<close> and \<open>struct a { int32_t b_statusa; }\<close> differ in
  the name of a member of primitive type, and have one hash.
  \<open>struct a { float p8_4702bnz10v56u02o3; }\<close> and
  \<open>struct a { double p8_4702bnz10v56u02o3; }\<close> differ in the spelling of the primitive
  type, and have one hash.
\<close>

theorem struct_hash_compound_rename_counterexample:
  "parse_struct lcmgen_create ''a.lcm''
     (tokenize_create [''a'', ''{'', ''pose_t'', ''origin'', '';'', ''}''])
   = Inr (\<lparr>lcmfile = ''a.lcm'',
            structname = \<lparr>typename = ''a'', package = [], shortname = ''a''\<rparr>,
            members = [\<lparr>type = \<lparr>typename = ''pose_t'', package = [], shortname = ''pose_t''\<rparr>,
              membername = ''origin'', dimensions = []\<rparr>],
            struct_hash = 463715084285385456\<rparr>,
          \<lparr>token = ''}'', unread = []\<rparr>) \<and>
   parse_struct lcmgen_create ''a.lcm''
     (tokenize_create [''a'', ''{'', ''pose_t'', ''start'', '';'', ''}''])
   = Inr (\<lparr>lcmfile = ''a.lcm'',
            structname = \<lparr>typename = ''a'', package = [], shortname = ''a''\<rparr>,
            members = [\<lparr>type = \<lparr>typename = ''pose_t'', package = [], shortname = ''pose_t''\<rparr>,
              membername = ''start'', dimensions = []\<rparr>],
            struct_hash = 8648445603125583020\<rparr>,
          \<lparr>token = ''}'', unread = []\<rparr>) \<and>
   (463715084285385456 :: int64_t) \<noteq> 8648445603125583020 \<and>
   parse_struct lcmgen_create ''a.lcm''
     (tokenize_create [''a'', ''{'', ''int32_t'', ''a_statusc'', '';'', ''}''])
   = Inr (\<lparr>lcmfile = ''a.lcm'',
            structname = \<lparr>typename = ''a'', package = [], shortname = ''a''\<rparr>,
            members = [\<lparr>type = \<lparr>typename = ''int32_t'', package = [], shortname = ''int32_t''\<rparr>,
              membername = ''a_statusc'', dimensions = []\<rparr>],
            struct_hash = 12655078733492443020\<rparr>,
          \<lparr>token = ''}'', unread = []\<rparr>) \<and>
   parse_struct lcmgen_create ''a.lcm''
     (tokenize_create [''a'', ''{'', ''int32_t'', ''b_statusa'', '';'', ''}''])
   = Inr (\<lparr>lcmfile = ''a.lcm'',
            structname = \<lparr>typename = ''a'', package = [], shortname = ''a''\<rparr>,
            members = [\<lparr>type = \<lparr>typename = ''int32_t'', package = [], shortname = ''int32_t''\<rparr>,
              membername = ''b_statusa'', dimensions = []\<rparr>],
            struct_hash = 12655078733492443020\<rparr>,
          \<lparr>token = ''}'', unread = []\<rparr>) \<and>
   parse_struct lcmgen_create ''a.lcm''
     (tokenize_create [''a'', ''{'', ''float'', ''p8_4702bnz10v56u02o3'', '';'', ''}''])
   = Inr (\<lparr>lcmfile = ''a.lcm'',
            structname = \<lparr>typename = ''a'', package = [], shortname = ''a''\<rparr>,
            members = [\<lparr>type = \<lparr>typename = ''float'', package = [], shortname = ''float''\<rparr>,
              membername = ''p8_4702bnz10v56u02o3'', dimensions = []\<rparr>],
            struct_hash = 10335636300945390622\<rparr>,
          \<lparr>token = ''}'', unread = []\<rparr>) \<and>
   parse_struct lcmgen_create ''a.lcm''
     (tokenize_create [''a'', ''{'', ''double'', ''p8_4702bnz10v56u02o3'', '';'', ''}''])
   = Inr (\<lparr>lcmfile = ''a.lcm'',
            structname = \<lparr>typename = ''a'', package = [], shortname = ''a''\<rparr>,
            members = [\<lparr>type = \<lparr>typename = ''double'', package = [], shortname = ''double''\<rparr>,
              membername = ''p8_4702bnz10v56u02o3'', dimensions = []\<rparr>],
            struct_hash = 10335636300945390622\<rparr>,
          \<lparr>token = ''}'', unread = []\<rparr>)"
  by code_simp

section \<open>Enum values\<close>

lemma enum_value_max_Max:
  "sint (enum_value_max mx vs) = Max (insert (sint mx) (sint ` evalue ` set vs))"
proof (induction vs arbitrary: mx)
  case Nil
  show ?case by simp
next
  case (Cons v vs)
  have "Max (insert (sint (if mx <s evalue v then evalue v else mx)) (sint ` evalue ` set vs))
      = Max (insert (sint mx) (insert (sint (evalue v)) (sint ` evalue ` set vs)))"
  proof (cases "mx <s evalue v")
    case True
    have "sint (evalue v) \<le> Max (insert (sint (evalue v)) (sint ` evalue ` set vs))"
      by (rule Max_ge) simp_all
    moreover from True have "sint mx < sint (evalue v)"
      by (simp add: word_sless_alt)
    ultimately have "sint mx \<le> Max (insert (sint (evalue v)) (sint ` evalue ` set vs))"
      by linarith
    with True show ?thesis
      by (simp add: max_absorb2)
  next
    case False
    then have "insert (sint mx) (insert (sint (evalue v)) (sint ` evalue ` set vs))
        = insert (sint (evalue v)) (insert (sint mx) (sint ` evalue ` set vs))"
      by auto
    moreover have "sint (evalue v) \<le> Max (insert (sint mx) (sint ` evalue ` set vs))"
    proof -
      have "sint mx \<le> Max (insert (sint mx) (sint ` evalue ` set vs))"
        by (rule Max_ge) simp_all
      moreover from False have "\<not> sint mx < sint (evalue v)"
        by (simp add: word_sless_alt)
      ultimately show ?thesis
        by linarith
    qed
    ultimately show ?thesis
      using False by (simp add: max_absorb2)
  qed
  then show ?case
    by (simp add: Cons.IH)
qed

lemma check_enum_duplicates_None:
  "check_enum_duplicates vs lev = None \<longleftrightarrow>
     (\<forall>v \<in> set vs. evalue v \<noteq> evalue lev \<and> valuename v \<noteq> valuename lev)"
  by (induction vs) auto

lemma parse_enum_value_auto:
  assumes "unread t = name # nxt # rest" and "nxt \<noteq> ''=''"
  shows "parse_enum_value le t =
     (case check_enum_duplicates (evalues le)
             \<lparr>valuename = name, evalue = enum_value_max 0 (evalues le) + 1\<rparr> of
        Some e \<Rightarrow> Inl e
      | None \<Rightarrow> Inr (le\<lparr>evalues := evalues le @
            [\<lparr>valuename = name, evalue = enum_value_max 0 (evalues le) + 1\<rparr>]\<rparr>,
          t\<lparr>token := nxt, unread := nxt # rest\<rparr>))"
  using assms
  by (simp add: parse_enum_value_def require_next_def tokenize_next_def parse_try_consume_def
      tokenize_peek_def lcm_enum_value_create_def Let_def split: option.splits)

lemma parse_enum_value_explicit:
  assumes "unread t = name # ''='' # lit # rest"
  shows "parse_enum_value le t =
     (case check_enum_duplicates (evalues le)
             \<lparr>valuename = name, evalue = word_of_int (strtol lit)\<rparr> of
        Some e \<Rightarrow> Inl e
      | None \<Rightarrow> Inr (le\<lparr>evalues := evalues le @
            [\<lparr>valuename = name, evalue = word_of_int (strtol lit)\<rparr>]\<rparr>,
          t\<lparr>token := lit, unread := rest\<rparr>))"
  using assms
  by (simp add: parse_enum_value_def require_next_def tokenize_next_def parse_try_consume_def
      tokenize_peek_def lcm_enum_value_create_def Let_def split: option.splits)

lemma sint_succ_int32:
  "sint ((x :: int32_t) + 1) = (if sint x = 2 ^ 31 - 1 then - (2 ^ 31) else sint x + 1)"
proof (cases "sint x = 2 ^ 31 - 1")
  case True
  then have "x = word_of_int (2 ^ 31 - 1)"
    by (metis scast_eq scast_id)
  then show ?thesis
    using True by simp
next
  case False
  moreover have "sint x < 2 ^ 31" "- (2 ^ 31) \<le> sint x"
    using sint_lt [of x] sint_ge [of x] by simp_all
  ultimately have "sint (x + 1) = sint x + 1"
    by (simp add: sint_word_ariths signed_take_bit_int_eq_self)
  with False show ?thesis by simp
qed

text \<open>
  C5, as the code has it. An enum value declared without \<open>=\<close> receives one more than
  the maximum of 0 and all the values parsed so far in that enum, in signed 32-bit
  arithmetic: the running maximum starts at 0 and is not lowered by negative values,
  and when it is \<open>2^31 - 1\<close> the sum wraps around to \<open>-2^31\<close>. It is not one more than
  the value that precedes it.
\<close>

theorem enum_auto_value:
  assumes "unread t = name # nxt # rest" and "nxt \<noteq> ''=''"
    and "parse_enum_value le t = Inr (le', t')"
  shows "evalues le' = evalues le @ [last (evalues le')] \<and>
     valuename (last (evalues le')) = name \<and>
     evalue (last (evalues le'))
       = word_of_int (Max (insert 0 (sint ` evalue ` set (evalues le))) + 1) \<and>
     sint (evalue (last (evalues le')))
       = (if Max (insert 0 (sint ` evalue ` set (evalues le))) = 2 ^ 31 - 1 then - (2 ^ 31)
          else Max (insert 0 (sint ` evalue ` set (evalues le))) + 1)"
proof -
  let ?mx = "enum_value_max 0 (evalues le)"
  have mx: "sint ?mx = Max (insert 0 (sint ` evalue ` set (evalues le)))"
    by (simp add: enum_value_max_Max)
  have "word_of_int (sint ?mx + 1) = ?mx + 1"
    by (simp add: wi_hom_syms)
  with mx have w: "?mx + 1 = word_of_int (Max (insert 0 (sint ` evalue ` set (evalues le))) + 1)"
    by simp
  have s: "sint (?mx + 1)
       = (if Max (insert 0 (sint ` evalue ` set (evalues le))) = 2 ^ 31 - 1 then - (2 ^ 31)
          else Max (insert 0 (sint ` evalue ` set (evalues le))) + 1)"
    unfolding mx [symmetric] by (rule sint_succ_int32)
  from assms have "evalues le' = evalues le @ [\<lparr>valuename = name, evalue = ?mx + 1\<rparr>]"
    by (auto simp: parse_enum_value_auto split: option.splits)
  then have a: "evalues le' = evalues le @ [last (evalues le')]"
    and b: "valuename (last (evalues le')) = name"
    and c: "evalue (last (evalues le')) = ?mx + 1"
    by simp_all
  from c w have d: "evalue (last (evalues le'))
       = word_of_int (Max (insert 0 (sint ` evalue ` set (evalues le))) + 1)"
    by (rule trans)
  from c s have e: "sint (evalue (last (evalues le')))
       = (if Max (insert 0 (sint ` evalue ` set (evalues le))) = 2 ^ 31 - 1 then - (2 ^ 31)
          else Max (insert 0 (sint ` evalue ` set (evalues le))) + 1)"
    by (simp only:)
  from a b d e show ?thesis
    by (intro conjI)
qed

text \<open>
  The third value of \<open>enum Color { RED, GREEN=5, BLUE }\<close>: \<open>BLUE\<close> is 6.
\<close>

theorem enum_auto_value_witness:
  "unread \<lparr>token = ''BLUE'', unread = [''BLUE'', ''}'']\<rparr> = ''BLUE'' # ''}'' # [] \<and>
   ''}'' \<noteq> ''='' \<and>
   parse_enum_value
     \<lparr>enum_lcmfile = ''a.lcm'', enumname = lcm_typename_create ''Color'',
        evalues = [\<lparr>valuename = ''RED'', evalue = 1\<rparr>, \<lparr>valuename = ''GREEN'', evalue = 5\<rparr>],
        enum_hash = 0\<rparr>
     \<lparr>token = ''BLUE'', unread = [''BLUE'', ''}'']\<rparr>
   = Inr (\<lparr>enum_lcmfile = ''a.lcm'', enumname = lcm_typename_create ''Color'',
        evalues = [\<lparr>valuename = ''RED'', evalue = 1\<rparr>, \<lparr>valuename = ''GREEN'', evalue = 5\<rparr>,
          \<lparr>valuename = ''BLUE'', evalue = 6\<rparr>],
        enum_hash = 0\<rparr>,
      \<lparr>token = ''}'', unread = [''}'']\<rparr>) \<and>
   Max (insert 0 (sint ` evalue ` set
     [\<lparr>valuename = ''RED'', evalue = 1 :: int32_t\<rparr>, \<lparr>valuename = ''GREEN'', evalue = 5\<rparr>]))
     = 5 \<and>
   sint (6 :: int32_t) = 5 + 1"
proof -
  let ?le = "\<lparr>enum_lcmfile = ''a.lcm'', enumname = lcm_typename_create ''Color'',
        evalues = [\<lparr>valuename = ''RED'', evalue = 1\<rparr>, \<lparr>valuename = ''GREEN'', evalue = 5\<rparr>],
        enum_hash = 0\<rparr>"
  let ?t = "\<lparr>token = ''BLUE'', unread = [''BLUE'', ''}'']\<rparr>"
  have a: "unread ?t = ''BLUE'' # ''}'' # []" by simp
  have b: "''}'' \<noteq> ''=''" by simp
  have c: "parse_enum_value ?le ?t
   = Inr (\<lparr>enum_lcmfile = ''a.lcm'', enumname = lcm_typename_create ''Color'',
        evalues = [\<lparr>valuename = ''RED'', evalue = 1\<rparr>, \<lparr>valuename = ''GREEN'', evalue = 5\<rparr>,
          \<lparr>valuename = ''BLUE'', evalue = 6\<rparr>],
        enum_hash = 0\<rparr>,
      \<lparr>token = ''}'', unread = [''}'']\<rparr>)"
    by code_simp
  have d: "Max (insert 0 (sint ` evalue ` set (evalues ?le))) = 5"
    by simp
  from enum_auto_value [OF a b c] d a b c show ?thesis
    by simp
qed

text \<open>
  In \<open>enum E { A = -5, B }\<close>, and in \<open>enum E { A = 0xFFFFFFFB, B }\<close> where the literal
  is cut to the same 32-bit value, \<open>B\<close> is 1, though one more than the maximum of the
  values parsed so far is \<open>-4\<close>. In \<open>enum E { A = 2147483647, B }\<close> the value of \<open>B\<close> is
  \<open>-2147483648\<close>, though one more than the maximum is \<open>2147483648\<close>.
\<close>

theorem enum_auto_value_negative_counterexample:
  "parse_enum lcmgen_create ''a.lcm''
     (tokenize_create [''E'', ''{'', ''A'', ''='', ''-5'', '','', ''B'', ''}''])
   = Inr (\<lparr>enum_lcmfile = ''a.lcm'',
            enumname = \<lparr>typename = ''E'', package = [], shortname = ''E''\<rparr>,
            evalues = [\<lparr>valuename = ''A'', evalue = - 5\<rparr>, \<lparr>valuename = ''B'', evalue = 1\<rparr>],
            enum_hash = 148868987683141\<rparr>,
          \<lparr>token = ''}'', unread = []\<rparr>) \<and>
   parse_enum lcmgen_create ''a.lcm''
     (tokenize_create [''E'', ''{'', ''A'', ''='', ''0xFFFFFFFB'', '','', ''B'', ''}''])
   = Inr (\<lparr>enum_lcmfile = ''a.lcm'',
            enumname = \<lparr>typename = ''E'', package = [], shortname = ''E''\<rparr>,
            evalues = [\<lparr>valuename = ''A'', evalue = - 5\<rparr>, \<lparr>valuename = ''B'', evalue = 1\<rparr>],
            enum_hash = 148868987683141\<rparr>,
          \<lparr>token = ''}'', unread = []\<rparr>) \<and>
   spec_enum_auto_value [\<lparr>valuename = ''A'', evalue = - 5\<rparr>] = - 4 \<and>
   parse_enum lcmgen_create ''a.lcm''
     (tokenize_create [''E'', ''{'', ''A'', ''='', ''2147483647'', '','', ''B'', ''}''])
   = Inr (\<lparr>enum_lcmfile = ''a.lcm'',
            enumname = \<lparr>typename = ''E'', package = [], shortname = ''E''\<rparr>,
            evalues = [\<lparr>valuename = ''A'', evalue = 2147483647\<rparr>,
              \<lparr>valuename = ''B'', evalue = - 2147483648\<rparr>],
            enum_hash = 148868987683141\<rparr>,
          \<lparr>token = ''}'', unread = []\<rparr>) \<and>
   sint (- 2147483648 :: int32_t) = - 2147483648 \<and>
   spec_enum_auto_value [\<lparr>valuename = ''A'', evalue = 2147483647\<rparr>] = 2147483648"
proof -
  have "spec_enum_auto_value [\<lparr>valuename = ''A'', evalue = - 5\<rparr>] = - 4"
    and "spec_enum_auto_value [\<lparr>valuename = ''A'', evalue = 2147483647\<rparr>] = 2147483648"
    and "sint (- 2147483648 :: int32_t) = - 2147483648"
    by (simp_all add: spec_enum_auto_value_def)
  moreover have "parse_enum lcmgen_create ''a.lcm''
     (tokenize_create [''E'', ''{'', ''A'', ''='', ''-5'', '','', ''B'', ''}''])
   = Inr (\<lparr>enum_lcmfile = ''a.lcm'',
            enumname = \<lparr>typename = ''E'', package = [], shortname = ''E''\<rparr>,
            evalues = [\<lparr>valuename = ''A'', evalue = - 5\<rparr>, \<lparr>valuename = ''B'', evalue = 1\<rparr>],
            enum_hash = 148868987683141\<rparr>,
          \<lparr>token = ''}'', unread = []\<rparr>)"
    by code_simp
  moreover have "parse_enum lcmgen_create ''a.lcm''
     (tokenize_create [''E'', ''{'', ''A'', ''='', ''0xFFFFFFFB'', '','', ''B'', ''}''])
   = Inr (\<lparr>enum_lcmfile = ''a.lcm'',
            enumname = \<lparr>typename = ''E'', package = [], shortname = ''E''\<rparr>,
            evalues = [\<lparr>valuename = ''A'', evalue = - 5\<rparr>, \<lparr>valuename = ''B'', evalue = 1\<rparr>],
            enum_hash = 148868987683141\<rparr>,
          \<lparr>token = ''}'', unread = []\<rparr>)"
    by code_simp
  moreover have "parse_enum lcmgen_create ''a.lcm''
     (tokenize_create [''E'', ''{'', ''A'', ''='', ''2147483647'', '','', ''B'', ''}''])
   = Inr (\<lparr>enum_lcmfile = ''a.lcm'',
            enumname = \<lparr>typename = ''E'', package = [], shortname = ''E''\<rparr>,
            evalues = [\<lparr>valuename = ''A'', evalue = 2147483647\<rparr>,
              \<lparr>valuename = ''B'', evalue = - 2147483648\<rparr>],
            enum_hash = 148868987683141\<rparr>,
          \<lparr>token = ''}'', unread = []\<rparr>)"
    by code_simp
  ultimately show ?thesis by (intro conjI)
qed

section \<open>Top-level dispatch\<close>

text \<open>
  C6, as the code has it. When no token is left, \<open>parse_entity\<close> returns \<open>EOF\<close> and the
  file ends normally with the registry as it is. A token that is none of \<open>struct\<close>,
  \<open>enum\<close> and \<open>union\<close> is a fatal parse error (\<open>Missing struct/enum/union token.\<close>),
  and \<open>union\<close> always is one (\<open>unions not implemented\<close>).
\<close>

theorem parse_entity_dispatch:
  "(unread t = [] \<longrightarrow>
      parse_entity lcmgen file t = Inr (EOF, lcmgen, t) \<and>
      (\<not> gopt_tokenize lcmgen \<longrightarrow>
         lcmgen_handle_file lcmgen file (Some t) = (lcmgen, Returned 0))) \<and>
   (unread t = tok # rest \<and> tok \<noteq> ''struct'' \<and> tok \<noteq> ''enum'' \<and> tok \<noteq> ''union'' \<longrightarrow>
      parse_entity lcmgen file t = Inl (parse_error ''Missing struct/enum/union token.'') \<and>
      (\<not> gopt_tokenize lcmgen \<longrightarrow>
         lcmgen_handle_file lcmgen file (Some t)
           = (lcmgen, Exited (parse_error ''Missing struct/enum/union token.'')))) \<and>
   (unread t = ''union'' # rest \<longrightarrow>
      parse_entity lcmgen file t
        = Inl (parse_error (''unions not implemented'' @ [CHR 0x0A])) \<and>
      (\<not> gopt_tokenize lcmgen \<longrightarrow>
         lcmgen_handle_file lcmgen file (Some t)
           = (lcmgen, Exited (parse_error (''unions not implemented'' @ [CHR 0x0A])))))"
proof (intro conjI impI)
  assume "unread t = []"
  then show a: "parse_entity lcmgen file t = Inr (EOF, lcmgen, t)"
    by (simp add: parse_entity_def tokenize_next_def)
  assume "\<not> gopt_tokenize lcmgen"
  with a show "lcmgen_handle_file lcmgen file (Some t) = (lcmgen, Returned 0)"
    unfolding lcmgen_handle_file_def by (subst parse_entities.simps) simp
next
  assume "unread t = tok # rest \<and> tok \<noteq> ''struct'' \<and> tok \<noteq> ''enum'' \<and> tok \<noteq> ''union''"
  then show a: "parse_entity lcmgen file t = Inl (parse_error ''Missing struct/enum/union token.'')"
    by (simp add: parse_entity_def tokenize_next_def)
  assume "\<not> gopt_tokenize lcmgen"
  with a show "lcmgen_handle_file lcmgen file (Some t)
        = (lcmgen, Exited (parse_error ''Missing struct/enum/union token.''))"
    unfolding lcmgen_handle_file_def by (subst parse_entities.simps) simp
next
  assume "unread t = ''union'' # rest"
  then show a: "parse_entity lcmgen file t
        = Inl (parse_error (''unions not implemented'' @ [CHR 0x0A]))"
    by (simp add: parse_entity_def tokenize_next_def)
  assume "\<not> gopt_tokenize lcmgen"
  with a show "lcmgen_handle_file lcmgen file (Some t)
        = (lcmgen, Exited (parse_error (''unions not implemented'' @ [CHR 0x0A])))"
    unfolding lcmgen_handle_file_def by (subst parse_entities.simps) simp
qed

text \<open>
  The empty file, a file that starts with \<open>typedef\<close>, and one that starts with
  \<open>union\<close>.
\<close>

theorem parse_entity_dispatch_witness:
  "lcmgen_handle_file lcmgen_create ''a.lcm'' (Some (tokenize_create []))
     = (lcmgen_create, Returned 0) \<and>
   lcmgen_handle_file lcmgen_create ''a.lcm'' (Some (tokenize_create [''typedef'', ''a'']))
     = (lcmgen_create, Exited (parse_error ''Missing struct/enum/union token.'')) \<and>
   lcmgen_handle_file lcmgen_create ''a.lcm''
       (Some (tokenize_create [''union'', ''u'', ''{'', ''}'']))
     = (lcmgen_create, Exited (parse_error (''unions not implemented'' @ [CHR 0x0A])))"
proof -
  have opt: "\<not> gopt_tokenize lcmgen_create"
    by (simp add: lcmgen_create_def)
  from opt
    parse_entity_dispatch [of "tokenize_create []" lcmgen_create "''a.lcm''"]
    parse_entity_dispatch [of "tokenize_create [''typedef'', ''a'']" lcmgen_create "''a.lcm''"
      "''typedef''" "[''a'']"]
    parse_entity_dispatch [of "tokenize_create [''union'', ''u'', ''{'', ''}'']" lcmgen_create
      "''a.lcm''" _ "[''u'', ''{'', ''}'']"]
  show ?thesis
    by (simp add: tokenize_create_def)
qed

text \<open>
  A file whose first token is \<open>message\<close> does not end normally: the run exits with a
  parse error.
\<close>

theorem parse_entity_other_token_counterexample:
  "lcmgen_handle_file lcmgen_create ''a.lcm''
       (Some (tokenize_create [''message'', ''a'', ''{'', ''}'']))
     = (lcmgen_create, Exited (parse_error ''Missing struct/enum/union token.''))"
  by code_simp

section \<open>Array dimensions\<close>

text \<open>
  C7. \<open>struct a { int32_t x[x]; }\<close> is accepted: the member \<open>x\<close> is in the member list
  before its own dimensions are checked, so the size \<open>x\<close> finds \<open>x\<close> itself, which
  has no dimension yet and an integer type. No member was declared before it, and in
  the completed struct \<open>x\<close> is not a scalar.
\<close>

theorem variable_dimension_self_reference:
  "parse_struct lcmgen_create ''a.lcm''
     (tokenize_create [''a'', ''{'', ''int32_t'', ''x'', ''['', ''x'', '']'', '';'', ''}''])
   = Inr (\<lparr>lcmfile = ''a.lcm'',
            structname = \<lparr>typename = ''a'', package = [], shortname = ''a''\<rparr>,
            members =
              [\<lparr>type = \<lparr>typename = ''int32_t'', package = [], shortname = ''int32_t''\<rparr>,
                 membername = ''x'',
                 dimensions = [\<lparr>mode = LCM_VAR, dim_size = ''x''\<rparr>]\<rparr>],
            struct_hash = 2296164678103672510\<rparr>,
          \<lparr>token = ''}'', unread = []\<rparr>)"
  by code_simp







section \<open>The registry holds complete entities only\<close>

lemma parse_entities_run:
  "parse_entities lcmgen path t = (lcmgen', r) \<Longrightarrow>
     \<exists>n t'. entities_after n path (lcmgen, t) = Some (lcmgen', t') \<and>
       (case r of
          Exited e \<Rightarrow> parse_entity lcmgen' path t' = Inl e
        | Returned k \<Rightarrow> k = 0 \<and> parse_entity lcmgen' path t' = Inr (EOF, lcmgen', t'))"
proof (induction lcmgen path t arbitrary: lcmgen' r rule: parse_entities.induct)
  case (1 lcmgen path t)
  show ?case
  proof (cases "parse_entity lcmgen path t")
    case (Inl e)
    with "1.prems" have "lcmgen' = lcmgen" and "r = Exited e"
      by (subst (asm) parse_entities.simps, simp)+
    with Inl have "entities_after 0 path (lcmgen, t) = Some (lcmgen', t) \<and>
       (case r of
          Exited e \<Rightarrow> parse_entity lcmgen' path t = Inl e
        | Returned k \<Rightarrow> k = 0 \<and> parse_entity lcmgen' path t = Inr (EOF, lcmgen', t))"
      by simp
    then show ?thesis by blast
  next
    case (Inr x)
    obtain res g1 t1 where x: "x = (res, g1, t1)"
      by (cases x)
    from Inr x have step: "parse_entity lcmgen path t = Inr (res, g1, t1)"
      by simp
    show ?thesis
    proof (cases "res = EOF")
      case True
      with step "1.prems" have "lcmgen' = g1" and "r = Returned 0"
        by (subst (asm) parse_entities.simps, simp)+
      moreover from step True have "g1 = lcmgen" and "t1 = t"
        by (auto simp: parse_entity_def EOF_def split: option.splits if_splits sum.splits)
      ultimately have "entities_after 0 path (lcmgen, t) = Some (lcmgen', t) \<and>
         (case r of
            Exited e \<Rightarrow> parse_entity lcmgen' path t = Inl e
          | Returned k \<Rightarrow> k = 0 \<and> parse_entity lcmgen' path t = Inr (EOF, lcmgen', t))"
        using step True by simp
      then show ?thesis by blast
    next
      case False
      with step "1.prems" have rec: "parse_entities g1 path t1 = (lcmgen', r)"
        by (subst (asm) parse_entities.simps) simp
      from "1.IH" [OF Inr x [symmetric] refl False rec]
      obtain n t' where "entities_after n path (g1, t1) = Some (lcmgen', t')"
        and fin: "case r of
            Exited e \<Rightarrow> parse_entity lcmgen' path t' = Inl e
          | Returned k \<Rightarrow> k = 0 \<and> parse_entity lcmgen' path t' = Inr (EOF, lcmgen', t')"
        by blast
      with step False have "entities_after (Suc n) path (lcmgen, t) = Some (lcmgen', t')"
        by simp
      with fin show ?thesis by blast
    qed
  qed
qed

lemma parse_entity_appends:
  assumes "parse_entity g path s = Inr (res, g1, s1)" and "res \<noteq> EOF"
  shows "(\<exists>s0 lr. tokenize_next s = Some s0 \<and> token s0 = ''struct'' \<and>
            parse_struct g path s0 = Inr (lr, s1) \<and> g1 = g\<lparr>structs := structs g @ [lr]\<rparr>) \<or>
         (\<exists>s0 le. tokenize_next s = Some s0 \<and> token s0 = ''enum'' \<and>
            parse_enum g path s0 = Inr (le, s1) \<and> g1 = g\<lparr>enums := enums g @ [le]\<rparr>)"
proof (cases "tokenize_next s")
  case None
  with assms show ?thesis
    by (simp add: parse_entity_def)
next
  case (Some s0)
  show ?thesis
  proof (cases "token s0 = ''struct''")
    case True
    with assms Some obtain lr where "parse_struct g path s0 = Inr (lr, s1)"
      and "g1 = g\<lparr>structs := structs g @ [lr]\<rparr>"
      by (auto simp: parse_entity_def split: sum.splits prod.splits)
    with Some True show ?thesis by blast
  next
    case False
    with assms Some obtain le where "token s0 = ''enum''" and "parse_enum g path s0 = Inr (le, s1)"
      and "g1 = g\<lparr>enums := enums g @ [le]\<rparr>"
      by (auto simp: parse_entity_def split: if_splits sum.splits prod.splits)
    with Some show ?thesis by blast
  qed
qed

lemma parse_entity_fails_inside:
  "tokenize_next s = Some s0 \<Longrightarrow>
     (token s0 = ''struct'' \<and> parse_struct g path s0 = Inl e \<or>
      token s0 = ''enum'' \<and> parse_enum g path s0 = Inl e) \<Longrightarrow>
     parse_entity g path s = Inl e"
  by (auto simp: parse_entity_def)

text \<open>
  C9. A fatal diagnostic ends the run at once, and the registry at that moment is the
  one with which the parse of the failing entity began: a run that ends by a
  diagnostic has gone through some number of rounds that each parsed an entity, and
  its registry is the one after those rounds, from which \<open>parse_entity\<close> produced the
  diagnostic; a run that returns has done so at the end of the input. Each such round
  appends to the registry exactly the struct that \<open>parse_struct\<close>, or the enum that
  \<open>parse_enum\<close>, returned for the tokens behind the keyword, and nothing else; when
  \<open>parse_struct\<close> or \<open>parse_enum\<close> fails, so does \<open>parse_entity\<close>, and nothing is
  appended.
\<close>

theorem registry_only_complete_entities:
  "parse_entities lcmgen path t = (lcmgen', r) \<Longrightarrow>
     (\<exists>n t'. entities_after n path (lcmgen, t) = Some (lcmgen', t') \<and>
       (case r of
          Exited e \<Rightarrow> parse_entity lcmgen' path t' = Inl e
        | Returned k \<Rightarrow> k = 0 \<and> parse_entity lcmgen' path t' = Inr (EOF, lcmgen', t'))) \<and>
     (parse_entity g path s = Inr (res, g1, s1) \<and> res \<noteq> EOF \<longrightarrow>
        (\<exists>s0 lr. tokenize_next s = Some s0 \<and> token s0 = ''struct'' \<and>
            parse_struct g path s0 = Inr (lr, s1) \<and> g1 = g\<lparr>structs := structs g @ [lr]\<rparr>) \<or>
        (\<exists>s0 le. tokenize_next s = Some s0 \<and> token s0 = ''enum'' \<and>
            parse_enum g path s0 = Inr (le, s1) \<and> g1 = g\<lparr>enums := enums g @ [le]\<rparr>)) \<and>
     (tokenize_next s = Some s0 \<and>
        (token s0 = ''struct'' \<and> parse_struct g path s0 = Inl e \<or>
         token s0 = ''enum'' \<and> parse_enum g path s0 = Inl e) \<longrightarrow>
        parse_entity g path s = Inl e)"
  using parse_entities_run [of lcmgen path t lcmgen' r]
    parse_entity_appends [of g path s res g1 s1] parse_entity_fails_inside [of s s0 g path e]
  by blast

text \<open>
  \<open>struct a { int32_t x; } struct b { int32_t n[0]; }\<close>: the run exits in the second
  struct, after one round, and the registry holds the first struct and nothing of the
  second.
\<close>

theorem registry_only_complete_entities_witness:
  "parse_entities lcmgen_create ''a.lcm''
     (tokenize_create [''struct'', ''a'', ''{'', ''int32_t'', ''x'', '';'', ''}'',
        ''struct'', ''b'', ''{'', ''int32_t'', ''n'', ''['', ''0'', '']'', '';'', ''}''])
   = (\<lparr>gopt_tokenize = False,
        structs =
          [\<lparr>lcmfile = ''a.lcm'',
             structname = \<lparr>typename = ''a'', package = [], shortname = ''a''\<rparr>,
             members =
               [\<lparr>type = \<lparr>typename = ''int32_t'', package = [], shortname = ''int32_t''\<rparr>,
                  membername = ''x'', dimensions = []\<rparr>],
             struct_hash = 7607385575789847566\<rparr>],
        enums = []\<rparr>,
      Exited (semantic_error ''Constant array size must be > 0'')) \<and>
   (\<exists>n t'. entities_after n ''a.lcm'' (lcmgen_create,
       (tokenize_create [''struct'', ''a'', ''{'', ''int32_t'', ''x'', '';'', ''}'',
          ''struct'', ''b'', ''{'', ''int32_t'', ''n'', ''['', ''0'', '']'', '';'', ''}'']))
     = Some (\<lparr>gopt_tokenize = False,
        structs =
          [\<lparr>lcmfile = ''a.lcm'',
             structname = \<lparr>typename = ''a'', package = [], shortname = ''a''\<rparr>,
             members =
               [\<lparr>type = \<lparr>typename = ''int32_t'', package = [], shortname = ''int32_t''\<rparr>,
                  membername = ''x'', dimensions = []\<rparr>],
             struct_hash = 7607385575789847566\<rparr>],
        enums = []\<rparr>, t') \<and>
     parse_entity
      \<lparr>gopt_tokenize = False,
        structs =
          [\<lparr>lcmfile = ''a.lcm'',
             structname = \<lparr>typename = ''a'', package = [], shortname = ''a''\<rparr>,
             members =
               [\<lparr>type = \<lparr>typename = ''int32_t'', package = [], shortname = ''int32_t''\<rparr>,
                  membername = ''x'', dimensions = []\<rparr>],
             struct_hash = 7607385575789847566\<rparr>],
        enums = []\<rparr> ''a.lcm'' t'
      = Inl (semantic_error ''Constant array size must be > 0'')) \<and>
   entities_after 1 ''a.lcm'' (lcmgen_create,
     (tokenize_create [''struct'', ''a'', ''{'', ''int32_t'', ''x'', '';'', ''}'',
        ''struct'', ''b'', ''{'', ''int32_t'', ''n'', ''['', ''0'', '']'', '';'', ''}'']))
   = Some (\<lparr>gopt_tokenize = False,
        structs =
          [\<lparr>lcmfile = ''a.lcm'',
             structname = \<lparr>typename = ''a'', package = [], shortname = ''a''\<rparr>,
             members =
               [\<lparr>type = \<lparr>typename = ''int32_t'', package = [], shortname = ''int32_t''\<rparr>,
                  membername = ''x'', dimensions = []\<rparr>],
             struct_hash = 7607385575789847566\<rparr>],
        enums = []\<rparr>,
      \<lparr>token = ''}'',
        unread = [''struct'', ''b'', ''{'', ''int32_t'', ''n'', ''['', ''0'', '']'', '';'', ''}'']\<rparr>)"
proof -
  have run: "parse_entities lcmgen_create ''a.lcm''
     (tokenize_create [''struct'', ''a'', ''{'', ''int32_t'', ''x'', '';'', ''}'',
        ''struct'', ''b'', ''{'', ''int32_t'', ''n'', ''['', ''0'', '']'', '';'', ''}''])
   = (\<lparr>gopt_tokenize = False,
        structs =
          [\<lparr>lcmfile = ''a.lcm'',
             structname = \<lparr>typename = ''a'', package = [], shortname = ''a''\<rparr>,
             members =
               [\<lparr>type = \<lparr>typename = ''int32_t'', package = [], shortname = ''int32_t''\<rparr>,
                  membername = ''x'', dimensions = []\<rparr>],
             struct_hash = 7607385575789847566\<rparr>],
        enums = []\<rparr>,
      Exited (semantic_error ''Constant array size must be > 0''))"
    by code_simp
  have one: "entities_after 1 ''a.lcm'' (lcmgen_create,
     (tokenize_create [''struct'', ''a'', ''{'', ''int32_t'', ''x'', '';'', ''}'',
        ''struct'', ''b'', ''{'', ''int32_t'', ''n'', ''['', ''0'', '']'', '';'', ''}'']))
   = Some (\<lparr>gopt_tokenize = False,
        structs =
          [\<lparr>lcmfile = ''a.lcm'',
             structname = \<lparr>typename = ''a'', package = [], shortname = ''a''\<rparr>,
             members =
               [\<lparr>type = \<lparr>typename = ''int32_t'', package = [], shortname = ''int32_t''\<rparr>,
                  membername = ''x'', dimensions = []\<rparr>],
             struct_hash = 7607385575789847566\<rparr>],
        enums = []\<rparr>,
      \<lparr>token = ''}'',
        unread = [''struct'', ''b'', ''{'', ''int32_t'', ''n'', ''['', ''0'', '']'', '';'', ''}'']\<rparr>)"
    by code_simp
  from registry_only_complete_entities [OF run, THEN conjunct1]
  have "\<exists>n t'. entities_after n ''a.lcm'' (lcmgen_create,
       (tokenize_create [''struct'', ''a'', ''{'', ''int32_t'', ''x'', '';'', ''}'',
          ''struct'', ''b'', ''{'', ''int32_t'', ''n'', ''['', ''0'', '']'', '';'', ''}'']))
     = Some (\<lparr>gopt_tokenize = False,
        structs =
          [\<lparr>lcmfile = ''a.lcm'',
             structname = \<lparr>typename = ''a'', package = [], shortname = ''a''\<rparr>,
             members =
               [\<lparr>type = \<lparr>typename = ''int32_t'', package = [], shortname = ''int32_t''\<rparr>,
                  membername = ''x'', dimensions = []\<rparr>],
             struct_hash = 7607385575789847566\<rparr>],
        enums = []\<rparr>, t') \<and>
     parse_entity
      \<lparr>gopt_tokenize = False,
        structs =
          [\<lparr>lcmfile = ''a.lcm'',
             structname = \<lparr>typename = ''a'', package = [], shortname = ''a''\<rparr>,
             members =
               [\<lparr>type = \<lparr>typename = ''int32_t'', package = [], shortname = ''int32_t''\<rparr>,
                  membername = ''x'', dimensions = []\<rparr>],
             struct_hash = 7607385575789847566\<rparr>],
        enums = []\<rparr> ''a.lcm'' t'
      = Inl (semantic_error ''Constant array size must be > 0'')"
    by simp
  with run one show ?thesis
    by (intro conjI)
qed

section \<open>Which names are checked\<close>

lemma not_legal_member_name:
  "unread t = name # rest \<Longrightarrow> \<not> lcm_is_legal_member_name name \<Longrightarrow>
     parse_member_names lr lt t
       = Inl (parse_error ''Invalid member name: must start with [a-zA-Z_].'')"
  by (subst parse_member_names.simps) (simp add: require_next_def tokenize_next_def)

lemma not_legal_type_name:
  "unread t = ty # rest \<Longrightarrow> ty \<noteq> ''struct'' \<Longrightarrow> ty \<noteq> ''enum'' \<Longrightarrow> ty \<noteq> ''union'' \<Longrightarrow>
     \<not> lcm_is_legal_member_name ty \<Longrightarrow>
     parse_member lcmgen lr t = Inl (parse_error ''invalid type name'')"
  by (simp add: parse_member_def parse_try_consume_def tokenize_peek_def tokenize_next_def
      require_next_def lcm_is_legal_member_name_def)

text \<open>
  C10. \<open>parse_enum_value\<close> takes whatever token comes as the name of the value: when
  the name and the number collide with no earlier value of the enum, the value is
  appended, with the automatic number or with the number after \<open>=\<close>, whatever the
  first character of the name is. Names of members, names of types and names used as a
  variable array size are rejected unless they start with a letter or an underscore.
\<close>

theorem enum_value_name_not_validated:
  "(unread t = name # nxt # rest \<and> nxt \<noteq> ''='' \<and>
      (\<forall>v \<in> set (evalues le).
         evalue v \<noteq> enum_value_max 0 (evalues le) + 1 \<and> valuename v \<noteq> name) \<longrightarrow>
      parse_enum_value le t =
        Inr (le\<lparr>evalues := evalues le @
               [\<lparr>valuename = name, evalue = enum_value_max 0 (evalues le) + 1\<rparr>]\<rparr>,
             t\<lparr>token := nxt, unread := nxt # rest\<rparr>)) \<and>
   (unread t = name # ''='' # lit # rest \<and>
      (\<forall>v \<in> set (evalues le).
         evalue v \<noteq> word_of_int (strtol lit) \<and> valuename v \<noteq> name) \<longrightarrow>
      parse_enum_value le t =
        Inr (le\<lparr>evalues := evalues le @
               [\<lparr>valuename = name, evalue = word_of_int (strtol lit)\<rparr>]\<rparr>,
             t\<lparr>token := lit, unread := rest\<rparr>)) \<and>
   (unread t = name # rest \<and> \<not> lcm_is_legal_member_name name \<longrightarrow>
      parse_member_names lr lt t
        = Inl (parse_error ''Invalid member name: must start with [a-zA-Z_].'')) \<and>
   (unread t = name # rest \<and> name \<noteq> ''struct'' \<and> name \<noteq> ''enum'' \<and> name \<noteq> ''union'' \<and>
      \<not> lcm_is_legal_member_name name \<longrightarrow>
      parse_member lcmgen lr t = Inl (parse_error ''invalid type name'')) \<and>
   (\<not> isdigit (first_char (token t)) \<and> first_char (token t) \<noteq> CHR '']'' \<and>
      \<not> lcm_is_legal_member_name (token t) \<longrightarrow>
      parse_dimension_size lr t = Inl (semantic_error
        ''Invalid array size variable name: must start with [a-zA-Z_].''))"
proof (intro conjI impI)
  assume h: "unread t = name # nxt # rest \<and> nxt \<noteq> ''='' \<and>
      (\<forall>v \<in> set (evalues le).
         evalue v \<noteq> enum_value_max 0 (evalues le) + 1 \<and> valuename v \<noteq> name)"
  then have "check_enum_duplicates (evalues le)
      \<lparr>valuename = name, evalue = enum_value_max 0 (evalues le) + 1\<rparr> = None"
    by (simp add: check_enum_duplicates_None)
  with h show "parse_enum_value le t =
        Inr (le\<lparr>evalues := evalues le @
               [\<lparr>valuename = name, evalue = enum_value_max 0 (evalues le) + 1\<rparr>]\<rparr>,
             t\<lparr>token := nxt, unread := nxt # rest\<rparr>)"
    by (simp add: parse_enum_value_auto)
next
  assume h: "unread t = name # ''='' # lit # rest \<and>
      (\<forall>v \<in> set (evalues le).
         evalue v \<noteq> word_of_int (strtol lit) \<and> valuename v \<noteq> name)"
  then have "check_enum_duplicates (evalues le)
      \<lparr>valuename = name, evalue = word_of_int (strtol lit)\<rparr> = None"
    by (simp add: check_enum_duplicates_None)
  with h show "parse_enum_value le t =
        Inr (le\<lparr>evalues := evalues le @
               [\<lparr>valuename = name, evalue = word_of_int (strtol lit)\<rparr>]\<rparr>,
             t\<lparr>token := lit, unread := rest\<rparr>)"
    by (simp add: parse_enum_value_explicit)
next
  assume "unread t = name # rest \<and> \<not> lcm_is_legal_member_name name"
  then show "parse_member_names lr lt t
        = Inl (parse_error ''Invalid member name: must start with [a-zA-Z_].'')"
    by (simp add: not_legal_member_name)
next
  assume "unread t = name # rest \<and> name \<noteq> ''struct'' \<and> name \<noteq> ''enum'' \<and> name \<noteq> ''union'' \<and>
      \<not> lcm_is_legal_member_name name"
  then show "parse_member lcmgen lr t = Inl (parse_error ''invalid type name'')"
    by (simp add: not_legal_type_name)
next
  assume "\<not> isdigit (first_char (token t)) \<and> first_char (token t) \<noteq> CHR '']'' \<and>
      \<not> lcm_is_legal_member_name (token t)"
  then show "parse_dimension_size lr t = Inl (semantic_error
        ''Invalid array size variable name: must start with [a-zA-Z_].'')"
    by (simp add: parse_dimension_size_def)
qed

text \<open>
  In \<open>enum E { 9x }\<close> and in \<open>enum E { 9x = 7 }\<close> the value \<open>9x\<close> is accepted; as the
  name of a member or of a type \<open>9x\<close> is rejected, and so is \<open>$n\<close> as an array size.
\<close>

theorem enum_value_name_not_validated_witness:
  "parse_enum_value (lcm_enum_create ''a.lcm'' ''E'') \<lparr>token = ''{'', unread = [''9x'', ''}'']\<rparr>
     = Inr (\<lparr>enum_lcmfile = ''a.lcm'', enumname = lcm_typename_create ''E'',
              evalues = [\<lparr>valuename = ''9x'', evalue = 1\<rparr>], enum_hash = 0\<rparr>,
            \<lparr>token = ''}'', unread = [''}'']\<rparr>) \<and>
   parse_enum_value (lcm_enum_create ''a.lcm'' ''E'')
       \<lparr>token = ''{'', unread = [''9x'', ''='', ''7'', ''}'']\<rparr>
     = Inr (\<lparr>enum_lcmfile = ''a.lcm'', enumname = lcm_typename_create ''E'',
              evalues = [\<lparr>valuename = ''9x'', evalue = 7\<rparr>], enum_hash = 0\<rparr>,
            \<lparr>token = ''7'', unread = [''}'']\<rparr>) \<and>
   parse_member_names (lcm_struct_create ''a.lcm'' ''a'') (lcm_typename_create ''int32_t'')
       \<lparr>token = ''int32_t'', unread = [''9x'', '';'']\<rparr>
     = Inl (parse_error ''Invalid member name: must start with [a-zA-Z_].'') \<and>
   parse_member lcmgen_create (lcm_struct_create ''a.lcm'' ''a'')
       \<lparr>token = ''{'', unread = [''9x'', ''y'', '';'']\<rparr>
     = Inl (parse_error ''invalid type name'') \<and>
   parse_dimension_size (lcm_struct_create ''a.lcm'' ''a'') \<lparr>token = ''$n'', unread = ['']'']\<rparr>
     = Inl (semantic_error ''Invalid array size variable name: must start with [a-zA-Z_].'')"
proof -
  have illegal: "\<not> lcm_is_legal_member_name ''9x''" "\<not> lcm_is_legal_member_name ''$n''"
    and other: "\<not> isdigit (first_char ''$n'')"
    by (simp_all add: lcm_is_legal_member_name_def first_char_def isalpha_def isdigit_def)
  have seven: "strtol ''7'' = 7"
    by (simp add: strtol_def strtol_magnitude_def isspace_def first_char_def digit_value_def
        LONG_MAX_def)
  from enum_value_name_not_validated
    [of "\<lparr>token = ''{'', unread = [''9x'', ''}'']\<rparr>" "''9x''" "''}''" "[]"
      "lcm_enum_create ''a.lcm'' ''E''"]
  have a: "parse_enum_value (lcm_enum_create ''a.lcm'' ''E'')
       \<lparr>token = ''{'', unread = [''9x'', ''}'']\<rparr>
     = Inr (\<lparr>enum_lcmfile = ''a.lcm'', enumname = lcm_typename_create ''E'',
              evalues = [\<lparr>valuename = ''9x'', evalue = 1\<rparr>], enum_hash = 0\<rparr>,
            \<lparr>token = ''}'', unread = [''}'']\<rparr>)"
    by (simp add: lcm_enum_create_def)
  from enum_value_name_not_validated
    [of "\<lparr>token = ''{'', unread = [''9x'', ''='', ''7'', ''}'']\<rparr>" "''9x''" _ "[''}'']"
      "lcm_enum_create ''a.lcm'' ''E''" "''7''"] seven
  have b: "parse_enum_value (lcm_enum_create ''a.lcm'' ''E'')
       \<lparr>token = ''{'', unread = [''9x'', ''='', ''7'', ''}'']\<rparr>
     = Inr (\<lparr>enum_lcmfile = ''a.lcm'', enumname = lcm_typename_create ''E'',
              evalues = [\<lparr>valuename = ''9x'', evalue = 7\<rparr>], enum_hash = 0\<rparr>,
            \<lparr>token = ''7'', unread = [''}'']\<rparr>)"
    by (simp add: lcm_enum_create_def)
  from enum_value_name_not_validated
    [of "\<lparr>token = ''int32_t'', unread = [''9x'', '';'']\<rparr>" "''9x''" _ "['';'']" _ _
      "lcm_struct_create ''a.lcm'' ''a''" "lcm_typename_create ''int32_t''"] illegal
  have c: "parse_member_names (lcm_struct_create ''a.lcm'' ''a'') (lcm_typename_create ''int32_t'')
       \<lparr>token = ''int32_t'', unread = [''9x'', '';'']\<rparr>
     = Inl (parse_error ''Invalid member name: must start with [a-zA-Z_].'')"
    by simp
  from enum_value_name_not_validated
    [of "\<lparr>token = ''{'', unread = [''9x'', ''y'', '';'']\<rparr>" "''9x''" _ "[''y'', '';'']" _ _
      "lcm_struct_create ''a.lcm'' ''a''" _ lcmgen_create] illegal
  have d: "parse_member lcmgen_create (lcm_struct_create ''a.lcm'' ''a'')
       \<lparr>token = ''{'', unread = [''9x'', ''y'', '';'']\<rparr>
     = Inl (parse_error ''invalid type name'')"
    by simp
  from enum_value_name_not_validated
    [of "\<lparr>token = ''$n'', unread = ['']'']\<rparr>" _ _ _ _ _
      "lcm_struct_create ''a.lcm'' ''a''"] illegal other
  have e: "parse_dimension_size (lcm_struct_create ''a.lcm'' ''a'')
       \<lparr>token = ''$n'', unread = ['']'']\<rparr>
     = Inl (semantic_error ''Invalid array size variable name: must start with [a-zA-Z_].'')"
    by (simp add: first_char_def)
  from a b c d e show ?thesis
    by (intro conjI)
qed

end
